theory Spec2Isabelle
  imports Complex_Main "HOL-Library.Sublist"
begin

section \<open>Strings and JavaScript values\<close>

text \<open>
  JavaScript strings are modelled as \<open>string\<close> (ASCII), a value that may be
  \<open>undefined\<close> or \<open>null\<close> as an option, and JavaScript numbers as \<open>int\<close> where the
  code only ever stores integers and as \<open>real\<close> otherwise (doubles are idealised as
  real numbers throughout).
\<close>

definition lowerChar :: "char \<Rightarrow> char" where
  "lowerChar c =
     (case map_of (zip ''ABCDEFGHIJKLMNOPQRSTUVWXYZ'' ''abcdefghijklmnopqrstuvwxyz'') c of
        None \<Rightarrow> c | Some d \<Rightarrow> d)"

definition upperChar :: "char \<Rightarrow> char" where
  "upperChar c =
     (case map_of (zip ''abcdefghijklmnopqrstuvwxyz'' ''ABCDEFGHIJKLMNOPQRSTUVWXYZ'') c of
        None \<Rightarrow> c | Some d \<Rightarrow> d)"

definition toLowerCase :: "string \<Rightarrow> string" where
  "toLowerCase s = map lowerChar s"

definition toUpperCase :: "string \<Rightarrow> string" where
  "toUpperCase s = map upperChar s"

text \<open>\<open>value.includes(filter)\<close>: the filter occurs as a contiguous substring.\<close>

definition str_includes :: "string \<Rightarrow> string \<Rightarrow> bool" where
  "str_includes v f = sublist f v"

text \<open>Truthiness of a query parameter: present and not the empty string.\<close>

definition truthy :: "string option \<Rightarrow> bool" where
  "truthy p = (case p of None \<Rightarrow> False | Some s \<Rightarrow> s \<noteq> [])"

text \<open>\<open>a || b\<close> on two query parameters.\<close>

definition orElse :: "string option \<Rightarrow> string option \<Rightarrow> string option" where
  "orElse a b = (if truthy a then a else b)"

section \<open>Data model\<close>

datatype status = LOADED | IN_TRANSIT | DELIVERED

fun status_str :: "status \<Rightarrow> string" where
  "status_str LOADED = ''LOADED''"
| "status_str IN_TRANSIT = ''IN_TRANSIT''"
| "status_str DELIVERED = ''DELIVERED''"

record airwayBill =
  awbNumber :: string
  originStationCode :: "string option"
  destStationCode :: "string option"
  pieces :: int
  weightKg :: int
  status :: status
  lastUpdated :: string
  loadedAt :: string
  deliveredAt :: "string option"
  offloadedAtStationCode :: "string option"

record car =
  carNumber :: string
  carType :: "string option"
  airwayBills :: "airwayBill list"

text \<open>
  The fields that a train of the fleet state and a train snapshot share; the two
  objects extend them.  The field \<open>id\<close> of the source is \<open>trainId\<close> here, and the
  field \<open>lastUpdated\<close> of a train and of a snapshot is \<open>trainLastUpdated\<close> and
  \<open>snapLastUpdated\<close>.
\<close>

record trainView =
  trainId :: string
  name :: string
  speedKmh :: int
  route :: "string list"
  legProgress :: real
  cars :: "car list"

record train = trainView +
  currentLegIndex :: int
  displaySpeedKmh :: int
  dwellRemainingHours :: real
  trainLastUpdated :: "string option"

record snapshot = trainView +
  fromStationCode :: "string option"
  toStationCode :: "string option"
  currentLocation :: "real option \<times> real option"
  snapLastUpdated :: string

text \<open>
  The query of a request; each parameter is absent or a string (a repeated parameter,
  which Express turns into an array, is not modelled).
\<close>

record query =
  q_awb :: "string option"
  q_airwayBill :: "string option"
  q_trainName :: "string option"
  q_carNumber :: "string option"
  q_station :: "string option"
  q_status :: "string option"

section \<open>Filter engine: applyFilters\<close>

definition matchesString :: "string option \<Rightarrow> string option \<Rightarrow> bool" where
  "matchesString v f =
     (case (v, f) of
        (Some val, Some flt) \<Rightarrow> str_includes (toLowerCase val) (toLowerCase flt)
      | _ \<Rightarrow> False)"

text \<open>\<open>list.filter(Boolean)\<close> on a list of objects and nulls.\<close>

fun filterBoolean :: "'a option list \<Rightarrow> 'a list" where
  "filterBoolean [] = []"
| "filterBoolean (None # xs) = filterBoolean xs"
| "filterBoolean (Some x # xs) = x # filterBoolean xs"

text \<open>The callback of \<open>car.airwayBills.filter\<close>.\<close>

definition awbKept :: "string option \<Rightarrow> string option \<Rightarrow> string option \<Rightarrow> airwayBill \<Rightarrow> bool" where
  "awbKept awbFilter station statusQ awbObj =
     (if truthy awbFilter \<and> \<not> matchesString (Some (awbNumber awbObj)) awbFilter then False
      else if truthy station \<and>
              \<not> (matchesString (originStationCode awbObj) station \<or>
                 matchesString (destStationCode awbObj) station \<or>
                 matchesString
                   (Some (case offloadedAtStationCode awbObj of None \<Rightarrow> [] | Some s \<Rightarrow> s))
                   station)
           then False
      else (case statusQ of
              None \<Rightarrow> True
            | Some s \<Rightarrow> \<not> (s \<noteq> [] \<and> status_str (status awbObj) \<noteq> toUpperCase s)))"

text \<open>The callback of \<open>filteredCars.map\<close> in the cargo-level step.\<close>

definition filterCar :: "string option \<Rightarrow> string option \<Rightarrow> string option \<Rightarrow> car \<Rightarrow> car option" where
  "filterCar awbFilter station statusQ c =
     (let filteredAwbs = filter (awbKept awbFilter station statusQ) (airwayBills c)
      in if filteredAwbs = [] then None else Some (c\<lparr>airwayBills := filteredAwbs\<rparr>))"

text \<open>The callback of \<open>snapshots.map\<close>.\<close>

definition filterTrain :: "query \<Rightarrow> 'a trainView_scheme \<Rightarrow> 'a trainView_scheme option" where
  "filterTrain q t =
     (let awbFilter = orElse (q_awb q) (q_airwayBill q)
      in if truthy (q_trainName q) \<and> \<not> matchesString (Some (name t)) (q_trainName q)
         then None
         else
           let filteredCars = cars t;
               filteredCars =
                 (if truthy (q_carNumber q)
                  then filter (\<lambda>c. matchesString (Some (carNumber c)) (q_carNumber q)) filteredCars
                  else filteredCars);
               filteredCars =
                 (if truthy awbFilter \<or> truthy (q_station q) \<or> truthy (q_status q)
                  then filterBoolean
                         (map (filterCar awbFilter (q_station q) (q_status q)) filteredCars)
                  else filteredCars)
           in if filteredCars = [] then None else Some (t\<lparr>cars := filteredCars\<rparr>))"

definition applyFilters :: "'a trainView_scheme list \<Rightarrow> query \<Rightarrow> 'a trainView_scheme list" where
  "applyFilters snapshots q = filterBoolean (map (filterTrain q) snapshots)"

text \<open>The query with no parameter at all.\<close>

definition noQuery :: query where
  "noQuery = \<lparr>q_awb = None, q_airwayBill = None, q_trainName = None,
              q_carNumber = None, q_station = None, q_status = None\<rparr>"

subsection \<open>The filter as the specification words it\<close>

text \<open>
  A snapshot list is read as a table with one row for each cargo item: the train the
  item is on (without its cars), the car (without its cargo) and the item.  The matchers
  below are those of the specification; a matcher that is absent (or the empty string)
  accepts everything.
\<close>

definition carRows :: "'t \<Rightarrow> car \<Rightarrow> ('t \<times> car \<times> airwayBill) list" where
  "carRows t0 c = map (\<lambda>a. (t0, c\<lparr>airwayBills := []\<rparr>, a)) (airwayBills c)"

definition cargoRows :: "'a trainView_scheme list \<Rightarrow> ('a trainView_scheme \<times> car \<times> airwayBill) list" where
  "cargoRows ts = concat (map (\<lambda>t. concat (map (carRows (t\<lparr>cars := []\<rparr>)) (cars t))) ts)"

definition trainNameMatches :: "query \<Rightarrow> 'a trainView_scheme \<Rightarrow> bool" where
  "trainNameMatches q t \<longleftrightarrow>
     (truthy (q_trainName q) \<longrightarrow> matchesString (Some (name t)) (q_trainName q))"

definition carNumberMatches :: "query \<Rightarrow> car \<Rightarrow> bool" where
  "carNumberMatches q c \<longleftrightarrow>
     (truthy (q_carNumber q) \<longrightarrow> matchesString (Some (carNumber c)) (q_carNumber q))"

definition cargoIdMatches :: "query \<Rightarrow> airwayBill \<Rightarrow> bool" where
  "cargoIdMatches q a \<longleftrightarrow>
     (truthy (orElse (q_awb q) (q_airwayBill q)) \<longrightarrow>
        matchesString (Some (awbNumber a)) (orElse (q_awb q) (q_airwayBill q)))"

definition stationMatches :: "query \<Rightarrow> airwayBill \<Rightarrow> bool" where
  "stationMatches q a \<longleftrightarrow>
     (truthy (q_station q) \<longrightarrow>
        matchesString (originStationCode a) (q_station q) \<or>
        matchesString (destStationCode a) (q_station q) \<or>
        matchesString (Some (case offloadedAtStationCode a of None \<Rightarrow> [] | Some s \<Rightarrow> s))
          (q_station q))"

definition statusMatches :: "query \<Rightarrow> airwayBill \<Rightarrow> bool" where
  "statusMatches q a \<longleftrightarrow>
     (case q_status q of
        None \<Rightarrow> True
      | Some s \<Rightarrow> s \<noteq> [] \<longrightarrow> status_str (status a) = toUpperCase s)"

definition rowMatches :: "query \<Rightarrow> 'a trainView_scheme \<times> car \<times> airwayBill \<Rightarrow> bool" where
  "rowMatches q r =
     (case r of (t, c, a) \<Rightarrow>
        trainNameMatches q t \<and> carNumberMatches q c \<and>
        cargoIdMatches q a \<and> stationMatches q a \<and> statusMatches q a)"

definition cargoLevelFilter :: "query \<Rightarrow> bool" where
  "cargoLevelFilter q \<longleftrightarrow>
     truthy (orElse (q_awb q) (q_airwayBill q)) \<or> truthy (q_station q) \<or> truthy (q_status q)"

text \<open>No station code of the cargo item contains the station filter \<open>s\<close>.\<close>

definition stationMisses :: "string \<Rightarrow> airwayBill \<Rightarrow> bool" where
  "stationMisses s a \<longleftrightarrow>
     \<not> matchesString (originStationCode a) (Some s) \<and>
     \<not> matchesString (destStationCode a) (Some s) \<and>
     \<not> matchesString (Some (case offloadedAtStationCode a of None \<Rightarrow> [] | Some c \<Rightarrow> c)) (Some s)"

subsection \<open>Scenario data\<close>

definition scAwb :: "string \<Rightarrow> status \<Rightarrow> string option \<Rightarrow> airwayBill" where
  "scAwb n st off =
     \<lparr>awbNumber = n, originStationCode = Some ''LA'', destStationCode = Some ''KC'',
      pieces = 4, weightKg = 8200, status = st, lastUpdated = ''t1'', loadedAt = ''t0'',
      deliveredAt = off, offloadedAtStationCode = off\<rparr>"

definition scCar1 :: car where
  "scCar1 = \<lparr>carNumber = ''R1001'', carType = Some ''BOXCAR'',
             airwayBills = [scAwb ''AWB-110001'' LOADED None,
                            scAwb ''AWB-110002'' DELIVERED (Some ''KC'')]\<rparr>"

definition scCar2 :: car where
  "scCar2 = \<lparr>carNumber = ''R1002'', carType = Some ''TANK'',
             airwayBills = [scAwb ''AWB-120001'' IN_TRANSIT None]\<rparr>"

definition scTrain :: trainView where
  "scTrain = \<lparr>trainId = ''T1'', name = ''Pacific Runner 1'', speedKmh = 60,
              route = [''LA'', ''KC'', ''CHI'', ''NYC''], legProgress = 1 / 2,
              cars = [scCar1, scCar2]\<rparr>"

definition scQuery :: query where
  "scQuery = noQuery\<lparr>q_status := Some ''delivered''\<rparr>"

definition emptyTrain :: trainView where
  "emptyTrain = \<lparr>trainId = ''T1'', name = ''Pacific Runner 1'', speedKmh = 60,
      route = [''LA'', ''KC'', ''CHI'', ''NYC''], legProgress = 0, cars = []\<rparr>"

section \<open>Configuration, stations and routes\<close>

record config =
  TICK_MS :: int
  TRAIN_COUNT :: int
  MAX_CARS_PER_TRAIN :: int
  MAX_AWBS_PER_CAR :: int
  TIME_SCALE :: real
  MIN_DWELL_MINUTES :: int
  MAX_DWELL_MINUTES :: int

text \<open>The defaults of the environment variables.\<close>

definition defaultConfig :: config where
  "defaultConfig = \<lparr>TICK_MS = 5000, TRAIN_COUNT = 10, MAX_CARS_PER_TRAIN = 12,
     MAX_AWBS_PER_CAR = 5, TIME_SCALE = 60, MIN_DWELL_MINUTES = 5, MAX_DWELL_MINUTES = 20\<rparr>"

record station =
  code :: string
  stationName :: string
  city :: string
  stateCode :: string
  lat :: real
  lon :: real

definition STATIONS :: "station list" where
  "STATIONS =
     [\<lparr>code = ''LA'', stationName = ''Los Angeles Freight Yard'', city = ''Los Angeles'',
       stateCode = ''CA'', lat = 34033 / 1000, lon = - (118238 / 1000)\<rparr>,
      \<lparr>code = ''KC'', stationName = ''Kansas City Intermodal'', city = ''Kansas City'',
       stateCode = ''MO'', lat = 39104 / 1000, lon = - (94598 / 1000)\<rparr>,
      \<lparr>code = ''CHI'', stationName = ''Chicago Rail Hub'', city = ''Chicago'',
       stateCode = ''IL'', lat = 41874 / 1000, lon = - (8764 / 100)\<rparr>,
      \<lparr>code = ''MEM'', stationName = ''Memphis Freight Terminal'', city = ''Memphis'',
       stateCode = ''TN'', lat = 35149 / 1000, lon = - (90049 / 1000)\<rparr>,
      \<lparr>code = ''ATL'', stationName = ''Atlanta Distribution Center'', city = ''Atlanta'',
       stateCode = ''GA'', lat = 33749 / 1000, lon = - (84388 / 1000)\<rparr>,
      \<lparr>code = ''NYC'', stationName = ''New York Consolidation Yard'', city = ''New York'',
       stateCode = ''NY'', lat = 40713 / 1000, lon = - (74006 / 1000)\<rparr>]"

definition ROUTES :: "string list list" where
  "ROUTES =
     [[''LA'', ''KC'', ''CHI'', ''NYC''],
      [''LA'', ''MEM'', ''ATL'', ''NYC''],
      [''CHI'', ''KC'', ''MEM'', ''ATL''],
      [''NYC'', ''CHI'', ''KC'', ''LA'']]"

text \<open>
  Randomness: \<open>Math.random()\<close> is a source \<open>rnd\<close> of draws and a counter \<open>k\<close> of the draws
  taken so far; the \<open>k\<close>-th call returns \<open>rnd k\<close>.  A function that draws takes \<open>rnd\<close>
  and \<open>k\<close> and returns the new counter with its result.
\<close>

type_synonym random = "nat \<Rightarrow> real"

text \<open>\<open>randInt(min, max)\<close> on the draw \<open>r\<close>.\<close>

definition randInt :: "real \<Rightarrow> int \<Rightarrow> int \<Rightarrow> int" where
  "randInt r lo hi = \<lfloor>r * real_of_int (hi - lo + 1)\<rfloor> + lo"

text \<open>\<open>arr[i]\<close>: \<open>undefined\<close> outside the array.\<close>

definition elemAt :: "'a list \<Rightarrow> int \<Rightarrow> 'a option" where
  "elemAt arr i = (if 0 \<le> i \<and> i < int (length arr) then Some (arr ! nat i) else None)"

definition randChoice :: "real \<Rightarrow> 'a list \<Rightarrow> 'a option" where
  "randChoice r arr = elemAt arr (randInt r 0 (int (length arr) - 1))"

definition stationByCode :: "string option \<Rightarrow> station option" where
  "stationByCode c = (case c of None \<Rightarrow> None | Some cd \<Rightarrow> find (\<lambda>s. code s = cd) STATIONS)"

section \<open>Geo model: haversineKm\<close>

text \<open>\<open>Math.atan2(y, x)\<close> on real numbers.\<close>

definition atan2 :: "real \<Rightarrow> real \<Rightarrow> real" where
  "atan2 y x =
     (if 0 < x then arctan (y / x)
      else if x < 0 then (if 0 \<le> y then arctan (y / x) + pi else arctan (y / x) - pi)
      else if 0 < y then pi / 2
      else if y < 0 then - (pi / 2)
      else 0)"

definition toRad :: "real \<Rightarrow> real" where
  "toRad d = (d * pi) / 180"

text \<open>
  \<open>Math.sqrt\<close> of a negative number is \<open>NaN\<close>, which reaches \<open>R * c || 1\<close> and is
  falsy there; a zero distance is falsy too.
\<close>

definition haversineKm :: "real \<Rightarrow> real \<Rightarrow> real \<Rightarrow> real \<Rightarrow> real" where
  "haversineKm lat1 lon1 lat2 lon2 =
     (let R = 6371;
          dLat = toRad (lat2 - lat1);
          dLon = toRad (lon2 - lon1);
          a = sin (dLat / 2) * sin (dLat / 2) +
              cos (toRad lat1) * cos (toRad lat2) * sin (dLon / 2) * sin (dLon / 2)
      in if a < 0 \<or> 1 - a < 0 then 1
         else let c = 2 * atan2 (sqrt a) (sqrt (1 - a))
              in if R * c = 0 then 1 else R * c)"

section \<open>Identifiers\<close>

definition digitChar :: "nat \<Rightarrow> char" where
  "digitChar d = ''0123456789'' ! d"

fun decimal :: "nat \<Rightarrow> string" where
  "decimal n = (if n < 10 then [digitChar n] else decimal (n div 10) @ [digitChar (n mod 10)])"

declare decimal.simps [simp del]

text \<open>\<open>String(n)\<close> of a number that is an integer or \<open>NaN\<close>.\<close>

definition numToString :: "int option \<Rightarrow> string" where
  "numToString v =
     (case v of
        None \<Rightarrow> ''NaN''
      | Some n \<Rightarrow> if n < 0 then CHR ''-'' # decimal (nat (- n)) else decimal (nat n))"

definition padStart :: "nat \<Rightarrow> char \<Rightarrow> string \<Rightarrow> string" where
  "padStart n c s = replicate (n - length s) c @ s"

definition digitVal :: "char \<Rightarrow> nat option" where
  "digitVal c = map_of (zip ''0123456789'' [0, 1, 2, 3, 4, 5, 6, 7, 8, 9]) c"

text \<open>
  \<open>parseInt(s)\<close> on an optional sign and decimal digits followed by anything; no digit
  gives \<open>NaN\<close>.  (Leading white space and the prefix \<open>0x\<close> are not modelled: the code
  parses the identifier of a train, \<open>T\<close> and the decimal digits of a positive number.)
\<close>

definition digitsValue :: "string \<Rightarrow> nat" where
  "digitsValue ds = foldl (\<lambda>acc c. 10 * acc + (case digitVal c of None \<Rightarrow> 0 | Some d \<Rightarrow> d)) 0 ds"

definition parseInt :: "string \<Rightarrow> int option" where
  "parseInt s =
     (let neg = (s \<noteq> [] \<and> hd s = CHR ''-'');
          body = (if s \<noteq> [] \<and> (hd s = CHR ''-'' \<or> hd s = CHR ''+'') then tl s else s);
          ds = takeWhile (\<lambda>c. digitVal c \<noteq> None) body
      in if ds = [] then None
         else Some (if neg then - int (digitsValue ds) else int (digitsValue ds)))"

definition generateCarNumber :: "int \<Rightarrow> int \<Rightarrow> string" where
  "generateCarNumber trainIndex carIndex =
     ''R'' @ numToString (Some (trainIndex + 1)) @
     padStart 3 (CHR ''0'') (numToString (Some (carIndex + 1)))"

definition generateAwbNumber :: "int option \<Rightarrow> int \<Rightarrow> int \<Rightarrow> string" where
  "generateAwbNumber trainIndex carIndex awbIndex =
     ''AWB-'' @ numToString (map_option (\<lambda>n. n + 1) trainIndex) @
     numToString (Some (carIndex + 1)) @
     padStart 4 (CHR ''0'') (numToString (Some (awbIndex + 1)))"

section \<open>Cargo lifecycle\<close>

text \<open>The body of the inner \<open>forEach\<close> on arrival: deliver the item if this is its destination.\<close>

definition deliverAwb :: "string \<Rightarrow> string \<Rightarrow> airwayBill \<Rightarrow> airwayBill" where
  "deliverAwb nowIso arrivalStationCode awb =
     (if destStationCode awb = Some arrivalStationCode \<and> status awb \<noteq> DELIVERED
      then awb\<lparr>status := DELIVERED, lastUpdated := nowIso, deliveredAt := Some nowIso,
               offloadedAtStationCode := Some arrivalStationCode\<rparr>
      else awb)"

text \<open>The body of the inner \<open>forEach\<close> in transit: \<open>LOADED\<close> becomes \<open>IN_TRANSIT\<close>.\<close>

definition departAwb :: "string \<Rightarrow> string option \<Rightarrow> real \<Rightarrow> airwayBill \<Rightarrow> airwayBill" where
  "departAwb nowIso originCode progress awb =
     (if originStationCode awb = originCode \<and> status awb = LOADED \<and> progress > 5 / 100
      then awb\<lparr>status := IN_TRANSIT, lastUpdated := nowIso\<rparr>
      else awb)"

text \<open>
  The cargo item loaded at the arrival station; its four draws are taken in the order of
  the object literal.
\<close>

definition newAwb :: "string \<Rightarrow> random \<Rightarrow> nat \<Rightarrow> train \<Rightarrow> string \<Rightarrow> airwayBill" where
  "newAwb nowIso rnd k train arrivalStationCode =
     \<lparr>awbNumber =
        generateAwbNumber (map_option (\<lambda>n. n - 1) (parseInt (drop 1 (trainId train)))) 0
          (randInt (rnd k) 100 999),
      originStationCode = Some arrivalStationCode,
      destStationCode =
        elemAt (route train)
          (randInt (rnd (k + 1)) (currentLegIndex train + 1) (int (length (route train)) - 1)),
      pieces = randInt (rnd (k + 2)) 1 10,
      weightKg = randInt (rnd (k + 3)) 500 20000,
      status = LOADED,
      lastUpdated = nowIso,
      loadedAt = nowIso,
      deliveredAt = None,
      offloadedAtStationCode = None\<rparr>"

text \<open>The body of \<open>train.cars.forEach\<close> on arrival.\<close>

definition arriveCar :: "string \<Rightarrow> random \<Rightarrow> train \<Rightarrow> string \<Rightarrow> nat \<Rightarrow> car \<Rightarrow> car \<times> nat" where
  "arriveCar nowIso rnd train arrivalStationCode k c =
     (let awbs = map (deliverAwb nowIso arrivalStationCode) (airwayBills c)
      in if rnd k < 35 / 100
         then (c\<lparr>airwayBills := awbs @ [newAwb nowIso rnd (k + 1) train arrivalStationCode]\<rparr>,
               k + 5)
         else (c\<lparr>airwayBills := awbs\<rparr>, k + 1))"

fun arriveCars :: "string \<Rightarrow> random \<Rightarrow> train \<Rightarrow> string \<Rightarrow> nat \<Rightarrow> car list \<Rightarrow> car list \<times> nat" where
  "arriveCars nowIso rnd train arrivalStationCode k [] = ([], k)"
| "arriveCars nowIso rnd train arrivalStationCode k (c # cs) =
     (let (c', k') = arriveCar nowIso rnd train arrivalStationCode k c;
          (cs', k'') = arriveCars nowIso rnd train arrivalStationCode k' cs
      in (c' # cs', k''))"

section \<open>Simulation clock: updateTrains\<close>

definition dtHours :: "config \<Rightarrow> real" where
  "dtHours cfg = (real_of_int (TICK_MS cfg) / 3600000) * TIME_SCALE cfg"

text \<open>Step 2: the leg that was completed before the dwell is left.\<close>

definition legRollover :: "train \<Rightarrow> train" where
  "legRollover train =
     (let i = currentLegIndex train + 1;
          i = (if i \<ge> int (length (route train)) - 1 then 0 else i)
      in train\<lparr>currentLegIndex := i, legProgress := 0\<rparr>)"

text \<open>The arrival branch; \<open>train\<close> has its progress already incremented.\<close>

definition arrive :: "config \<Rightarrow> string \<Rightarrow> random \<Rightarrow> nat \<Rightarrow> train \<Rightarrow> string \<Rightarrow> train \<times> nat" where
  "arrive cfg nowIso rnd k train arrivalStationCode =
     (let train = train\<lparr>legProgress := 1\<rparr>;
          (cars', k') = arriveCars nowIso rnd train arrivalStationCode k (cars train);
          dwellMinutes = randInt (rnd k') (MIN_DWELL_MINUTES cfg) (MAX_DWELL_MINUTES cfg)
      in (train\<lparr>cars := cars', dwellRemainingHours := real_of_int dwellMinutes / 60,
                 displaySpeedKmh := 0\<rparr>,
          k' + 1))"

text \<open>The branch of a train still between two stations.\<close>

definition inTransit :: "string \<Rightarrow> random \<Rightarrow> nat \<Rightarrow> train \<Rightarrow> train \<times> nat" where
  "inTransit nowIso rnd k train =
     (let originCode = elemAt (route train) (currentLegIndex train);
          cars' = map (\<lambda>c. c\<lparr>airwayBills :=
                               map (departAwb nowIso originCode (legProgress train))
                                 (airwayBills c)\<rparr>) (cars train);
          train = train\<lparr>cars := cars'\<rparr>
      in if rnd k < 5 / 100
         then (train\<lparr>speedKmh := max 30 (min 110 (speedKmh train + randInt (rnd (k + 1)) (- 5) 5))\<rparr>,
               k + 2)
         else (train, k + 1))"

text \<open>Steps 3 to 6: movement on the leg between the two resolved stations.\<close>

definition moveTrain ::
  "config \<Rightarrow> string \<Rightarrow> random \<Rightarrow> nat \<Rightarrow> train \<Rightarrow> station \<Rightarrow> station \<Rightarrow> string \<Rightarrow> train \<times> nat" where
  "moveTrain cfg nowIso rnd k train fromStation toStation arrivalStationCode =
     (let legDistanceKm =
            haversineKm (lat fromStation) (lon fromStation) (lat toStation) (lon toStation);
          distanceThisTickKm = real_of_int (speedKmh train) * dtHours cfg;
          progressIncrement = distanceThisTickKm / legDistanceKm;
          train = train\<lparr>legProgress := legProgress train + progressIncrement,
                        displaySpeedKmh := speedKmh train\<rparr>;
          (train, k') =
            (if legProgress train \<ge> 1
             then arrive cfg nowIso rnd k train arrivalStationCode
             else inTransit nowIso rnd k train)
      in (train\<lparr>trainLastUpdated := Some nowIso\<rparr>, k'))"

text \<open>The body of \<open>trains.forEach\<close>.\<close>

definition updateTrain :: "config \<Rightarrow> string \<Rightarrow> random \<Rightarrow> nat \<Rightarrow> train \<Rightarrow> train \<times> nat" where
  "updateTrain cfg nowIso rnd k train0 =
     (if length (route train0) < 2 then (train0, k)
      else if dwellRemainingHours train0 > 0
      then (train0\<lparr>dwellRemainingHours := max 0 (dwellRemainingHours train0 - dtHours cfg),
                   displaySpeedKmh := 0, trainLastUpdated := Some nowIso\<rparr>, k)
      else
        let train = (if legProgress train0 \<ge> 1 then legRollover train0 else train0);
            fromCode = elemAt (route train) (currentLegIndex train);
            toCode = elemAt (route train) (currentLegIndex train + 1)
        in case (stationByCode fromCode, stationByCode toCode, toCode) of
             (Some fromStation, Some toStation, Some arrivalStationCode) \<Rightarrow>
               moveTrain cfg nowIso rnd k train fromStation toStation arrivalStationCode
           | _ \<Rightarrow> (train, k))"

fun updateTrainsFrom :: "config \<Rightarrow> string \<Rightarrow> random \<Rightarrow> nat \<Rightarrow> train list \<Rightarrow> train list" where
  "updateTrainsFrom cfg nowIso rnd k [] = []"
| "updateTrainsFrom cfg nowIso rnd k (t # ts) =
     (let (t', k') = updateTrain cfg nowIso rnd k t
      in t' # updateTrainsFrom cfg nowIso rnd k' ts)"

definition updateTrains :: "config \<Rightarrow> string \<Rightarrow> random \<Rightarrow> train list \<Rightarrow> train list" where
  "updateTrains cfg nowIso rnd trains = updateTrainsFrom cfg nowIso rnd 0 trains"

text \<open>A sequence of ticks, each with its time stamp and its source of draws.\<close>

fun runTicks :: "config \<Rightarrow> (string \<times> random) list \<Rightarrow> train list \<Rightarrow> train list" where
  "runTicks cfg [] trains = trains"
| "runTicks cfg ((nowIso, rnd) # ticks) trains = runTicks cfg ticks (updateTrains cfg nowIso rnd trains)"

section \<open>Fleet creation: createInitialTrains\<close>

text \<open>The loop of \<open>createAirwayBillsForCar\<close>: \<open>n\<close> iterations are left, \<open>i\<close> is the loop index.\<close>

fun awbLoop ::
  "string \<Rightarrow> random \<Rightarrow> string list \<Rightarrow> int \<Rightarrow> int \<Rightarrow> nat \<Rightarrow> int \<Rightarrow> nat \<Rightarrow> airwayBill list \<times> nat" where
  "awbLoop now rnd rt trainIndex carIndex k i 0 = ([], k)"
| "awbLoop now rnd rt trainIndex carIndex k i (Suc n) =
     (let originIdx = randInt (rnd k) 0 (int (length rt) - 2);
          destIdx = randInt (rnd (k + 1)) (originIdx + 1) (int (length rt) - 1);
          awb = \<lparr>awbNumber = generateAwbNumber (Some trainIndex) carIndex i,
                 originStationCode = elemAt rt originIdx,
                 destStationCode = elemAt rt destIdx,
                 pieces = randInt (rnd (k + 2)) 1 10,
                 weightKg = randInt (rnd (k + 3)) 500 20000,
                 status = LOADED,
                 lastUpdated = now,
                 loadedAt = now,
                 deliveredAt = None,
                 offloadedAtStationCode = None\<rparr>;
          (rest, k') = awbLoop now rnd rt trainIndex carIndex (k + 4) (i + 1) n
      in (awb # rest, k'))"

definition createAirwayBillsForCar ::
  "config \<Rightarrow> string \<Rightarrow> random \<Rightarrow> nat \<Rightarrow> string list \<Rightarrow> int \<Rightarrow> int \<Rightarrow> airwayBill list \<times> nat" where
  "createAirwayBillsForCar cfg now rnd k rt trainIndex carIndex =
     (let count = randInt (rnd k) 1 (MAX_AWBS_PER_CAR cfg)
      in awbLoop now rnd rt trainIndex carIndex (k + 1) 0 (nat count))"

definition CAR_TYPES :: "string list" where
  "CAR_TYPES = [''BOXCAR'', ''TANK'', ''HOPPER'', ''INTERMODAL'', ''FLATCAR'']"

definition TRAIN_NAMES :: "string list" where
  "TRAIN_NAMES = [''Pacific Runner'', ''Continental Freight'', ''Atlantic Express'',
                  ''Heartland Cargo'', ''Mountain Hauler'']"

text \<open>
  The loop over the cars of train \<open>i\<close>; \<open>clock i c\<close> is the time at which the cargo of
  car \<open>c\<close> is created.
\<close>

fun carLoop ::
  "config \<Rightarrow> (int \<Rightarrow> int \<Rightarrow> string) \<Rightarrow> random \<Rightarrow> string list \<Rightarrow> int \<Rightarrow> nat \<Rightarrow> int \<Rightarrow> nat \<Rightarrow> car list \<times> nat" where
  "carLoop cfg clock rnd rt i k c 0 = ([], k)"
| "carLoop cfg clock rnd rt i k c (Suc n) =
     (let ty = randChoice (rnd k) CAR_TYPES;
          (awbs, k') = createAirwayBillsForCar cfg (clock i c) rnd (k + 1) rt i c;
          newCar = \<lparr>carNumber = generateCarNumber i c, carType = ty, airwayBills = awbs\<rparr>;
          (rest, k'') = carLoop cfg clock rnd rt i k' (c + 1) n
      in (newCar # rest, k''))"

text \<open>
  The loop over the trains.  A route that is \<open>undefined\<close> makes \<open>route.length\<close> throw:
  the result is \<open>None\<close> then.
\<close>

fun trainLoop ::
  "config \<Rightarrow> (int \<Rightarrow> int \<Rightarrow> string) \<Rightarrow> random \<Rightarrow> nat \<Rightarrow> int \<Rightarrow> nat \<Rightarrow> train list option" where
  "trainLoop cfg clock rnd k i 0 = Some []"
| "trainLoop cfg clock rnd k i (Suc n) =
     (case randChoice (rnd k) ROUTES of
        None \<Rightarrow> None
      | Some rt \<Rightarrow>
          let speed = randInt (rnd (k + 1)) 40 80;
              carCount = randInt (rnd (k + 2)) 5 (MAX_CARS_PER_TRAIN cfg);
              (cs, k') = carLoop cfg clock rnd rt i (k + 3) 0 (nat carCount);
              newTrain =
                \<lparr>trainId = ''T'' @ numToString (Some (i + 1)),
                 name = (case randChoice (rnd k') TRAIN_NAMES of
                           None \<Rightarrow> ''undefined'' | Some s \<Rightarrow> s) @
                        '' '' @ numToString (Some (i + 1)),
                 speedKmh = speed,
                 route = rt,
                 legProgress = rnd (k' + 1),
                 cars = cs,
                 currentLegIndex = 0,
                 displaySpeedKmh = speed,
                 dwellRemainingHours = 0,
                 trainLastUpdated = None\<rparr>
          in case trainLoop cfg clock rnd (k' + 2) (i + 1) n of
               None \<Rightarrow> None
             | Some rest \<Rightarrow> Some (newTrain # rest))"

definition createInitialTrains ::
  "config \<Rightarrow> (int \<Rightarrow> int \<Rightarrow> string) \<Rightarrow> random \<Rightarrow> train list option" where
  "createInitialTrains cfg clock rnd = trainLoop cfg clock rnd 0 0 (nat (TRAIN_COUNT cfg))"

section \<open>Snapshot projector and stream sink\<close>

text \<open>The object \<open>filtersApplied\<close> of a payload and the payload of one \<open>railUpdate\<close> event.\<close>

record filtersApplied =
  fa_awb :: "string option"
  fa_trainName :: "string option"
  fa_carNumber :: "string option"
  fa_station :: "string option"
  fa_status :: "string option"

record payload =
  p_timestamp :: string
  p_filtersApplied :: filtersApplied
  p_trains :: "snapshot list"
  p_stationCatalog :: "station list"

text \<open>\<open>p || null\<close> on a query parameter.\<close>

definition orNull :: "string option \<Rightarrow> string option" where
  "orNull p = (if truthy p then p else None)"

text \<open>
  \<open>parseFloat(x.toFixed(f))\<close>: rounding to \<open>f\<close> decimals, ties away from zero.
\<close>

definition toFixed :: "nat \<Rightarrow> real \<Rightarrow> real" where
  "toFixed f x = sgn x * real_of_int \<lfloor>\<bar>x\<bar> * 10 ^ f + 1 / 2\<rfloor> / 10 ^ f"

text \<open>The callback of \<open>trains.map\<close> in \<open>getTrainSnapshots\<close>.\<close>

definition snapshotOf :: "string \<Rightarrow> train \<Rightarrow> snapshot" where
  "snapshotOf now train =
     (let rt = route train;
          baseSpeed = displaySpeedKmh train
      in if dwellRemainingHours train > 0 \<and> legProgress train \<ge> 1
         then
           let stationCode = orElse (elemAt rt (currentLegIndex train + 1))
                                    (elemAt rt (currentLegIndex train));
               st = stationByCode stationCode
           in \<lparr>trainId = trainId train, name = name train, speedKmh = 0, route = rt,
               legProgress = 0, cars = cars train,
               fromStationCode = stationCode, toStationCode = stationCode,
               currentLocation = (map_option lat st, map_option lon st),
               snapLastUpdated = now\<rparr>
         else
           let fromCode = elemAt rt (currentLegIndex train);
               toCode = orElse (elemAt rt (currentLegIndex train + 1)) fromCode
           in case (stationByCode fromCode, stationByCode toCode) of
                (Some fromStation, Some toStation) \<Rightarrow>
                  let t = min (max (legProgress train) 0) 1;
                      la = lat fromStation + (lat toStation - lat fromStation) * t;
                      lo = lon fromStation + (lon toStation - lon fromStation) * t
                  in \<lparr>trainId = trainId train, name = name train, speedKmh = baseSpeed,
                      route = rt, legProgress = toFixed 3 t, cars = cars train,
                      fromStationCode = fromCode, toStationCode = toCode,
                      currentLocation = (Some (toFixed 5 la), Some (toFixed 5 lo)),
                      snapLastUpdated = now\<rparr>
              | _ \<Rightarrow>
                  \<lparr>trainId = trainId train, name = name train, speedKmh = baseSpeed,
                   route = rt, legProgress = legProgress train, cars = cars train,
                   fromStationCode = fromCode, toStationCode = toCode,
                   currentLocation = (None, None),
                   snapLastUpdated = now\<rparr>)"

definition getTrainSnapshots :: "string \<Rightarrow> train list \<Rightarrow> snapshot list" where
  "getTrainSnapshots now ts = map (snapshotOf now) ts"

text \<open>
  One firing of the interval timer of a subscriber (or its first update on connection):
  the query of the connection, and what the three calls of \<open>new Date()\<close> and the calls
  of \<open>Math.random()\<close> return during it.
\<close>

record timerEvent =
  ev_query :: query
  ev_tick :: "string \<times> random"
  ev_snapshotTime :: string
  ev_payloadTime :: string

text \<open>\<open>sendUpdate\<close> of a connection: the new fleet state and the payload written.\<close>

definition sendUpdate :: "config \<Rightarrow> timerEvent \<Rightarrow> train list \<Rightarrow> train list \<times> payload" where
  "sendUpdate cfg ev ts =
     (let ts' = updateTrains cfg (fst (ev_tick ev)) (snd (ev_tick ev)) ts;
          snapshots = getTrainSnapshots (ev_snapshotTime ev) ts';
          filteredSnapshots = applyFilters snapshots (ev_query ev);
          q = ev_query ev
      in (ts',
          \<lparr>p_timestamp = ev_payloadTime ev,
           p_filtersApplied = \<lparr>fa_awb = orNull (orElse (q_awb q) (q_airwayBill q)),
                      fa_trainName = orNull (q_trainName q),
                      fa_carNumber = orNull (q_carNumber q),
                      fa_station = orNull (q_station q),
                      fa_status = orNull (q_status q)\<rparr>,
           p_trains = filteredSnapshots,
           p_stationCatalog = STATIONS\<rparr>))"

text \<open>
  The timer firings of one tick interval, in the order in which they run: each connected
  subscriber has its own \<open>setInterval(sendUpdate, TICK_MS)\<close>.
\<close>

fun tickInterval :: "config \<Rightarrow> timerEvent list \<Rightarrow> train list \<Rightarrow> train list \<times> payload list" where
  "tickInterval cfg [] ts = (ts, [])"
| "tickInterval cfg (ev # evs) ts =
     (let (ts', p) = sendUpdate cfg ev ts;
          (ts'', ps) = tickInterval cfg evs ts'
      in (ts'', p # ps))"

section \<open>Notions used in the statements\<close>

text \<open>The order of the cargo states.\<close>

fun statusRank :: "status \<Rightarrow> nat" where
  "statusRank LOADED = 0"
| "statusRank IN_TRANSIT = 1"
| "statusRank DELIVERED = 2"

text \<open>
  A cargo item and the same item later: the status has not moved backwards, and a
  delivered item is unchanged.  For the cargo of a car, the cars of a train and the
  trains of a fleet, place by place; a car may have gained items at the end.
\<close>

definition awbAdvances :: "airwayBill \<Rightarrow> airwayBill \<Rightarrow> bool" where
  "awbAdvances a a' \<longleftrightarrow>
     statusRank (status a) \<le> statusRank (status a') \<and> (status a = DELIVERED \<longrightarrow> a' = a)"

definition cargoAdvances :: "airwayBill list \<Rightarrow> airwayBill list \<Rightarrow> bool" where
  "cargoAdvances as as' \<longleftrightarrow>
     length as \<le> length as' \<and> (\<forall>i < length as. awbAdvances (as ! i) (as' ! i))"

definition carsAdvance :: "car list \<Rightarrow> car list \<Rightarrow> bool" where
  "carsAdvance cs cs' \<longleftrightarrow>
     list_all2 (\<lambda>c c'. cargoAdvances (airwayBills c) (airwayBills c')) cs cs'"

definition fleetAdvances :: "train list \<Rightarrow> train list \<Rightarrow> bool" where
  "fleetAdvances ts ts' \<longleftrightarrow> list_all2 (\<lambda>t t'. carsAdvance (cars t) (cars t')) ts ts'"

text \<open>
  The bounds of claim C2 on a train, with the two facts their preservation rests on: the
  route has a leg and the speed is not negative.
\<close>

definition trainOk :: "train \<Rightarrow> bool" where
  "trainOk t \<longleftrightarrow>
     2 \<le> length (route t) \<and>
     0 \<le> legProgress t \<and> legProgress t \<le> 1 \<and>
     0 \<le> currentLegIndex t \<and> currentLegIndex t \<le> int (length (route t)) - 2 \<and>
     0 \<le> speedKmh t"

text \<open>The identifiers of all cargo items of a fleet, train by train and car by car.\<close>

definition fleetAwbNumbers :: "train list \<Rightarrow> string list" where
  "fleetAwbNumbers ts =
     concat (map (\<lambda>t. concat (map (\<lambda>c. map awbNumber (airwayBills c)) (cars t))) ts)"

text \<open>
  The cargo of a car created for train \<open>ti\<close> as car \<open>ci\<close>: at most 9999 items, item \<open>j\<close>
  numbered by \<open>generateAwbNumber\<close> from the three indices.
\<close>

definition carLabelled :: "int \<Rightarrow> int \<Rightarrow> car \<Rightarrow> bool" where
  "carLabelled ti ci c \<longleftrightarrow>
     length (airwayBills c) \<le> 9999 \<and>
     (\<forall>j < length (airwayBills c).
        awbNumber (airwayBills c ! j) = generateAwbNumber (Some ti) ci (int j))"

text \<open>Every draw lies in \<open>[0, 1)\<close>, as those of \<open>Math.random()\<close> do.\<close>

definition unitDraws :: "random \<Rightarrow> bool" where
  "unitDraws rnd \<longleftrightarrow> (\<forall>k. 0 \<le> rnd k \<and> rnd k < 1)"

text \<open>The cargo item at train \<open>n\<close>, car \<open>m\<close>, index \<open>j\<close> of a fleet, and the places that exist.\<close>

definition awbAt :: "train list \<Rightarrow> nat \<Rightarrow> nat \<Rightarrow> nat \<Rightarrow> airwayBill" where
  "awbAt ts n m j = airwayBills (cars (ts ! n) ! m) ! j"

definition validPos :: "train list \<Rightarrow> nat \<Rightarrow> nat \<Rightarrow> nat \<Rightarrow> bool" where
  "validPos ts n m j \<longleftrightarrow>
     n < length ts \<and> m < length (cars (ts ! n)) \<and> j < length (airwayBills (cars (ts ! n) ! m))"

subsection \<open>Scenario data for the simulation\<close>

text \<open>
  A train of five cars with one cargo item each, loaded at LA, on the last leg of its
  route and one tick away from NYC.
\<close>

definition simAwb :: "string \<Rightarrow> string \<Rightarrow> status \<Rightarrow> string option \<Rightarrow> string option \<Rightarrow> airwayBill" where
  "simAwb n dest st dAt off =
     \<lparr>awbNumber = n, originStationCode = Some ''LA'', destStationCode = Some dest,
      pieces = 1, weightKg = 500, status = st,
      lastUpdated = (case dAt of None \<Rightarrow> ''t0'' | Some d \<Rightarrow> d), loadedAt = ''t0'',
      deliveredAt = dAt, offloadedAtStationCode = off\<rparr>"

definition simCar :: "string \<Rightarrow> string \<Rightarrow> string \<Rightarrow> status \<Rightarrow> string option \<Rightarrow> string option \<Rightarrow> car" where
  "simCar cn n dest st dAt off =
     \<lparr>carNumber = cn, carType = Some ''BOXCAR'', airwayBills = [simAwb n dest st dAt off]\<rparr>"

definition arrivingTrain :: train where
  "arrivingTrain =
     \<lparr>trainId = ''T1'', name = ''Pacific Runner 1'', speedKmh = 60,
      route = [''LA'', ''KC'', ''CHI'', ''NYC''], legProgress = 9999 / 10000,
      cars = [simCar ''R1001'' ''AWB-110001'' ''KC'' DELIVERED (Some ''t1'') (Some ''KC''),
              simCar ''R1002'' ''AWB-120001'' ''NYC'' IN_TRANSIT None None,
              simCar ''R1003'' ''AWB-130001'' ''CHI'' DELIVERED (Some ''t1'') (Some ''CHI''),
              simCar ''R1004'' ''AWB-140001'' ''KC'' DELIVERED (Some ''t1'') (Some ''KC''),
              simCar ''R1005'' ''AWB-150001'' ''NYC'' IN_TRANSIT None None],
      currentLegIndex = 2, displaySpeedKmh = 60, dwellRemainingHours = 0,
      trainLastUpdated = None\<rparr>"

definition drawZero :: random where
  "drawZero = (\<lambda>k. 0)"

definition chicago :: station where
  "chicago = \<lparr>code = ''CHI'', stationName = ''Chicago Rail Hub'', city = ''Chicago'',
       stateCode = ''IL'', lat = 41874 / 1000, lon = - (8764 / 100)\<rparr>"

definition newYork :: station where
  "newYork = \<lparr>code = ''NYC'', stationName = ''New York Consolidation Yard'', city = ''New York'',
       stateCode = ''NY'', lat = 40713 / 1000, lon = - (74006 / 1000)\<rparr>"

definition nycAwb :: airwayBill where
  "nycAwb =
     \<lparr>awbNumber = ''AWB-110101'', originStationCode = Some ''NYC'',
      destStationCode = Some ''NYC'', pieces = 1, weightKg = 500, status = LOADED,
      lastUpdated = ''t2'', loadedAt = ''t2'', deliveredAt = None,
      offloadedAtStationCode = None\<rparr>"

text \<open>The cars of that train after the tick that brings it to NYC, every draw being 0.\<close>

definition arrivedCars :: "car list" where
  "arrivedCars =
     [\<lparr>carNumber = ''R1001'', carType = Some ''BOXCAR'',
       airwayBills = [simAwb ''AWB-110001'' ''KC'' DELIVERED (Some ''t1'') (Some ''KC''), nycAwb]\<rparr>,
      \<lparr>carNumber = ''R1002'', carType = Some ''BOXCAR'',
       airwayBills = [simAwb ''AWB-120001'' ''NYC'' DELIVERED (Some ''t2'') (Some ''NYC''), nycAwb]\<rparr>,
      \<lparr>carNumber = ''R1003'', carType = Some ''BOXCAR'',
       airwayBills = [simAwb ''AWB-130001'' ''CHI'' DELIVERED (Some ''t1'') (Some ''CHI''), nycAwb]\<rparr>,
      \<lparr>carNumber = ''R1004'', carType = Some ''BOXCAR'',
       airwayBills = [simAwb ''AWB-140001'' ''KC'' DELIVERED (Some ''t1'') (Some ''KC''), nycAwb]\<rparr>,
      \<lparr>carNumber = ''R1005'', carType = Some ''BOXCAR'',
       airwayBills = [simAwb ''AWB-150001'' ''NYC'' DELIVERED (Some ''t2'') (Some ''NYC''), nycAwb]\<rparr>]"

text \<open>
  The fleet of one train that \<open>createInitialTrains\<close> builds when every draw is 0: five
  cars with one cargo item each.
\<close>

definition oneTrainConfig :: config where
  "oneTrainConfig = defaultConfig\<lparr>TRAIN_COUNT := 1\<rparr>"

definition initialTrain :: train where
  "initialTrain =
     \<lparr>trainId = ''T1'', name = ''Pacific Runner 1'', speedKmh = 40,
      route = [''LA'', ''KC'', ''CHI'', ''NYC''], legProgress = 0,
      cars = [simCar ''R1001'' ''AWB-110001'' ''KC'' LOADED None None,
              simCar ''R1002'' ''AWB-120001'' ''KC'' LOADED None None,
              simCar ''R1003'' ''AWB-130001'' ''KC'' LOADED None None,
              simCar ''R1004'' ''AWB-140001'' ''KC'' LOADED None None,
              simCar ''R1005'' ''AWB-150001'' ''KC'' LOADED None None],
      currentLegIndex = 0, displaySpeedKmh = 40, dwellRemainingHours = 0,
      trainLastUpdated = None\<rparr>"

subsection \<open>Scenario data: the leg from LA to KC\<close>

definition losAngeles :: station where
  "losAngeles = \<lparr>code = ''LA'', stationName = ''Los Angeles Freight Yard'', city = ''Los Angeles'',
       stateCode = ''CA'', lat = 34033 / 1000, lon = - (118238 / 1000)\<rparr>"

definition kansasCity :: station where
  "kansasCity = \<lparr>code = ''KC'', stationName = ''Kansas City Intermodal'', city = ''Kansas City'',
       stateCode = ''MO'', lat = 39104 / 1000, lon = - (94598 / 1000)\<rparr>"

text \<open>A tick of one simulated hour: one real minute at the default time scale of 60.\<close>

definition hourConfig :: config where
  "hourConfig = defaultConfig\<lparr>TICK_MS := 60000\<rparr>"

text \<open>The train of the scenario, at the start of the leg from LA to KC, with any cars.\<close>

definition scenarioTrain :: "car list \<Rightarrow> train" where
  "scenarioTrain cs =
     \<lparr>trainId = ''T1'', name = ''Pacific Runner 1'', speedKmh = 60,
      route = [''LA'', ''KC'', ''CHI'', ''NYC''], legProgress = 0, cars = cs,
      currentLegIndex = 0, displaySpeedKmh = 60, dwellRemainingHours = 0,
      trainLastUpdated = None\<rparr>"

text \<open>The distance of the leg as the geo model computes it.\<close>

definition distLAKC :: real where
  "distLAKC = haversineKm (lat losAngeles) (lon losAngeles) (lat kansasCity) (lon kansasCity)"

text \<open>
  The draw that decides on a speed perturbation (the first draw of the tick of a single
  train in transit) does not trigger it.
\<close>

definition noSpeedChange :: "random \<Rightarrow> bool" where
  "noSpeedChange rnd \<longleftrightarrow> 5 / 100 \<le> rnd 0"

text \<open>The train is on the leg from LA at 60 km/h with progress \<open>p\<close> and is not dwelling.\<close>

definition enRoute :: "real \<Rightarrow> train \<Rightarrow> bool" where
  "enRoute p t \<longleftrightarrow>
     route t = [''LA'', ''KC'', ''CHI'', ''NYC''] \<and> speedKmh t = 60 \<and> currentLegIndex t = 0 \<and>
     dwellRemainingHours t = 0 \<and> legProgress t = p"

definition drawHalf :: random where
  "drawHalf = (\<lambda>k. 1 / 2)"

subsection \<open>Scenario data: two subscribers\<close>

text \<open>
  The train after its arrival at NYC, dwelling for 20 more minutes, and a subscriber
  without filters whose timer fires at time \<open>now\<close> with every draw 0.
\<close>

definition dwellingTrain :: train where
  "dwellingTrain =
     arrivingTrain\<lparr>legProgress := 1, cars := arrivedCars, dwellRemainingHours := 1 / 3,
       displaySpeedKmh := 0, trainLastUpdated := Some ''t2''\<rparr>"

definition subscriber :: "string \<Rightarrow> timerEvent" where
  "subscriber now = \<lparr>ev_query = noQuery, ev_tick = (now, drawZero), ev_snapshotTime = now,
                      ev_payloadTime = now\<rparr>"

section \<open>Properties of the filter engine\<close>

lemma filterBoolean_eq_Nil: "filterBoolean xs = [] \<longleftrightarrow> (\<forall>x \<in> set xs. x = None)"
  by (induction xs rule: filterBoolean.induct) simp_all

lemma set_filterBoolean: "set (filterBoolean xs) = {x. Some x \<in> set xs}"
  by (induction xs rule: filterBoolean.induct) auto

lemma awbKept_iff:
  "awbKept (orElse (q_awb q) (q_airwayBill q)) (q_station q) (q_status q) a \<longleftrightarrow>
     cargoIdMatches q a \<and> stationMatches q a \<and> statusMatches q a"
  by (auto simp: awbKept_def cargoIdMatches_def stationMatches_def statusMatches_def
           split: option.splits)

lemma cargoRows_Cons:
  "cargoRows (t # ts) = concat (map (carRows (t\<lparr>cars := []\<rparr>)) (cars t)) @ cargoRows ts"
  by (simp add: cargoRows_def)

lemma cargoRows_Nil: "cargoRows [] = []"
  by (simp add: cargoRows_def)

lemma carRows_filterCar:
  "concat (map (carRows t0) (filterBoolean (map (filterCar f s st) cs))) =
     filter (\<lambda>(t, c, a). awbKept f s st a) (concat (map (carRows t0) cs))"
proof (induction cs)
  case Nil
  show ?case by simp
next
  case (Cons c cs)
  have one: "filter (\<lambda>(t, c, a). awbKept f s st a) (carRows t0 c) =
               map (\<lambda>a. (t0, c\<lparr>airwayBills := []\<rparr>, a)) (filter (awbKept f s st) (airwayBills c))"
    by (simp add: carRows_def filter_map comp_def)
  show ?case
  proof (cases "filter (awbKept f s st) (airwayBills c) = []")
    case True
    then show ?thesis using Cons one by (simp add: filterCar_def)
  next
    case False
    then show ?thesis using Cons one by (simp add: filterCar_def carRows_def)
  qed
qed

lemma carRows_filter_car:
  "concat (map (carRows t0) (filter (\<lambda>c. P (carNumber c)) cs)) =
     filter (\<lambda>(t, c, a). P (carNumber c)) (concat (map (carRows t0) cs))"
proof (induction cs)
  case Nil
  show ?case by simp
next
  case (Cons c cs)
  have "filter (\<lambda>(t, c, a). P (carNumber c)) (carRows t0 c) =
          (if P (carNumber c) then carRows t0 c else [])"
    by (simp add: carRows_def filter_map comp_def)
  then show ?case using Cons by simp
qed

lemma filter_rows_const:
  "filter (\<lambda>(t, c, a). Q \<and> R c a) rows = (if Q then filter (\<lambda>(t, c, a). R c a) rows else [])"
  by (induction rows) auto

lemma filterCar_nonempty:
  "c' \<in> set (filterBoolean (map (filterCar f s st) cs)) \<Longrightarrow> airwayBills c' \<noteq> []"
  by (auto simp: set_filterBoolean filterCar_def Let_def split: if_splits)

lemma filterTrain_rows:
  assumes "cargoLevelFilter q"
  shows "cargoRows (filterBoolean [filterTrain q t]) = filter (rowMatches q) (cargoRows [t])"
proof -
  let ?f = "orElse (q_awb q) (q_airwayBill q)"
  let ?t0 = "t\<lparr>cars := []\<rparr>"
  let ?cs1 = "filter (\<lambda>c. carNumberMatches q c) (cars t)"
  let ?cs2 = "filterBoolean (map (filterCar ?f (q_station q) (q_status q)) ?cs1)"
  have cs1: "(if truthy (q_carNumber q)
              then filter (\<lambda>c. matchesString (Some (carNumber c)) (q_carNumber q)) (cars t)
              else cars t) = ?cs1"
    by (simp add: carNumberMatches_def)
  have rows2: "concat (map (carRows ?t0) ?cs2) =
      filter (\<lambda>(t', c, a). carNumberMatches q c \<and>
                 cargoIdMatches q a \<and> stationMatches q a \<and> statusMatches q a)
        (concat (map (carRows ?t0) (cars t)))"
  proof -
    have "concat (map (carRows ?t0) ?cs1) =
            filter (\<lambda>(t', c, a). carNumberMatches q c) (concat (map (carRows ?t0) (cars t)))"
      using carRows_filter_car [of ?t0 "\<lambda>n. truthy (q_carNumber q) \<longrightarrow> matchesString (Some n) (q_carNumber q)" "cars t"]
      by (simp add: carNumberMatches_def)
    then show ?thesis
      by (simp add: carRows_filterCar awbKept_iff case_prod_unfold conj_commute)
  qed
  have allt: "\<forall>r \<in> set (concat (map (carRows ?t0) (cars t))). fst r = ?t0"
    by (auto simp: carRows_def)
  have tn: "trainNameMatches q ?t0 = trainNameMatches q t"
    by (simp add: trainNameMatches_def)
  have right: "filter (rowMatches q) (cargoRows [t]) =
     (if trainNameMatches q t then concat (map (carRows ?t0) ?cs2) else [])"
  proof -
    have "rowMatches q r = (trainNameMatches q t \<and> (case r of (t', c, a) \<Rightarrow> carNumberMatches q c \<and>
                 cargoIdMatches q a \<and> stationMatches q a \<and> statusMatches q a))"
      if "r \<in> set (concat (map (carRows ?t0) (cars t)))" for r
    proof -
      from that allt have "fst r = ?t0" by blast
      then show ?thesis using tn by (cases r) (simp add: rowMatches_def)
    qed
    then have "filter (rowMatches q) (concat (map (carRows ?t0) (cars t))) =
          filter (\<lambda>r. trainNameMatches q t \<and> (case r of (t', c, a) \<Rightarrow> carNumberMatches q c \<and>
                 cargoIdMatches q a \<and> stationMatches q a \<and> statusMatches q a))
            (concat (map (carRows ?t0) (cars t)))"
      by (intro filter_cong refl)
    then show ?thesis
      by (simp add: cargoRows_def rows2)
  qed
  show ?thesis
  proof (cases "trainNameMatches q t")
    case False
    then have "filterTrain q t = None"
      by (simp add: filterTrain_def trainNameMatches_def)
    then show ?thesis using False right by (simp add: cargoRows_def)
  next
    case True
    show ?thesis
    proof (cases "?cs2 = []")
      case e: True
      have "filterTrain q t = None"
        using True e assms cs1
        by (simp add: filterTrain_def trainNameMatches_def cargoLevelFilter_def Let_def)
      then show ?thesis using True right e by (simp add: cargoRows_def)
    next
      case ne: False
      have "filterTrain q t = Some (t\<lparr>cars := ?cs2\<rparr>)"
        using True ne assms cs1
        by (simp add: filterTrain_def trainNameMatches_def cargoLevelFilter_def Let_def)
      then show ?thesis using True right by (simp add: cargoRows_def)
    qed
  qed
qed

lemma cargoRows_append: "cargoRows (xs @ ys) = cargoRows xs @ cargoRows ys"
  by (simp add: cargoRows_def)

lemma applyFilters_rows:
  assumes "cargoLevelFilter q"
  shows "cargoRows (applyFilters snapshots q) = filter (rowMatches q) (cargoRows snapshots)"
proof (induction snapshots)
  case Nil
  show ?case by (simp add: applyFilters_def cargoRows_def)
next
  case (Cons t ts)
  have "applyFilters (t # ts) q = filterBoolean [filterTrain q t] @ applyFilters ts q"
    by (cases "filterTrain q t") (simp_all add: applyFilters_def)
  moreover have "cargoRows (t # ts) = cargoRows [t] @ cargoRows ts"
    using cargoRows_append [of "[t]" ts] by simp
  ultimately show ?case
    using Cons filterTrain_rows [OF assms, of t] by (simp add: cargoRows_append)
qed

lemma filterTrain_nonempty:
  assumes "cargoLevelFilter q" "filterTrain q t = Some t'"
  shows "cars t' \<noteq> [] \<and> (\<forall>c \<in> set (cars t'). airwayBills c \<noteq> [])"
  using assms
  by (auto simp: filterTrain_def cargoLevelFilter_def Let_def
           split: if_splits dest: filterCar_nonempty)

text \<open>
  Claim C3.  When at least one of the cargo-id, station and status matchers is present,
  a cargo item survives \<open>applyFilters\<close> exactly when it satisfies every present matcher
  (train name and car number on its train and car; cargo id, station against origin,
  destination or offload station with a null offload read as the empty string, and
  status after upper-casing the query), the surviving rows keep their order and their
  train-level and car-level fields, no car of the result has an empty cargo collection
  and no train of the result has zero cars.
\<close>

theorem applyFilters_cargo_level:
  assumes "cargoLevelFilter q"
  shows "cargoRows (applyFilters snapshots q) = filter (rowMatches q) (cargoRows snapshots) \<and>
         (\<forall>t \<in> set (applyFilters snapshots q).
            cars t \<noteq> [] \<and> (\<forall>c \<in> set (cars t). airwayBills c \<noteq> []))"
proof
  show "cargoRows (applyFilters snapshots q) = filter (rowMatches q) (cargoRows snapshots)"
    by (rule applyFilters_rows [OF assms])
  show "\<forall>t \<in> set (applyFilters snapshots q).
            cars t \<noteq> [] \<and> (\<forall>c \<in> set (cars t). airwayBills c \<noteq> [])"
  proof
    fix t assume "t \<in> set (applyFilters snapshots q)"
    then have "\<exists>x. filterTrain q x = Some t"
      by (auto simp: applyFilters_def set_filterBoolean intro: sym)
    then show "cars t \<noteq> [] \<and> (\<forall>c \<in> set (cars t). airwayBills c \<noteq> [])"
      using filterTrain_nonempty [OF assms] by blast
  qed
qed


lemma upper_delivered: "toUpperCase ''delivered'' = ''DELIVERED''"
  by (simp add: toUpperCase_def upperChar_def)

text \<open>
  The scenario of the specification: a train with three cargo items, one of them
  delivered; the status filter \<open>delivered\<close> returns the train with the one car that holds
  the delivered item and with that item only.
\<close>

theorem applyFilters_cargo_level_witness:
  "cargoLevelFilter scQuery \<and>
   cargoRows (applyFilters [scTrain] scQuery) =
     [(scTrain\<lparr>cars := []\<rparr>, scCar1\<lparr>airwayBills := []\<rparr>, scAwb ''AWB-110002'' DELIVERED (Some ''KC''))] \<and>
   applyFilters [scTrain] scQuery =
     [scTrain\<lparr>cars := [scCar1\<lparr>airwayBills := [scAwb ''AWB-110002'' DELIVERED (Some ''KC'')]\<rparr>]\<rparr>]"
proof -
  have h: "cargoLevelFilter scQuery"
    by (simp add: cargoLevelFilter_def scQuery_def noQuery_def truthy_def)
  have rows: "filter (rowMatches scQuery) (cargoRows [scTrain]) =
     [(scTrain\<lparr>cars := []\<rparr>, scCar1\<lparr>airwayBills := []\<rparr>, scAwb ''AWB-110002'' DELIVERED (Some ''KC''))]"
    by (simp add: cargoRows_def carRows_def scTrain_def scCar1_def scCar2_def scAwb_def
          rowMatches_def trainNameMatches_def carNumberMatches_def cargoIdMatches_def
          stationMatches_def statusMatches_def scQuery_def noQuery_def truthy_def orElse_def
          upper_delivered)
  have res: "applyFilters [scTrain] scQuery =
     [scTrain\<lparr>cars := [scCar1\<lparr>airwayBills := [scAwb ''AWB-110002'' DELIVERED (Some ''KC'')]\<rparr>]\<rparr>]"
    by (simp add: applyFilters_def filterTrain_def filterCar_def awbKept_def scTrain_def
          scCar1_def scCar2_def scAwb_def scQuery_def noQuery_def truthy_def orElse_def
          upper_delivered)
  from applyFilters_cargo_level [OF h, of "[scTrain]"]
  have "cargoRows (applyFilters [scTrain] scQuery) = filter (rowMatches scQuery) (cargoRows [scTrain])"
    by (rule conjunct1)
  with rows h res show ?thesis by simp
qed

lemma filterTrain_no_criteria:
  assumes "\<not> truthy (q_awb q)" "\<not> truthy (q_airwayBill q)" "\<not> truthy (q_trainName q)"
    "\<not> truthy (q_carNumber q)" "\<not> truthy (q_station q)" "\<not> truthy (q_status q)"
  shows "filterTrain q t = (if cars t = [] then None else Some t)"
  using assms by (simp add: filterTrain_def orElse_def)

lemma applyFilters_no_criteria:
  assumes "\<not> truthy (q_awb q)" "\<not> truthy (q_airwayBill q)" "\<not> truthy (q_trainName q)"
    "\<not> truthy (q_carNumber q)" "\<not> truthy (q_station q)" "\<not> truthy (q_status q)"
  shows "applyFilters snapshots q = filter (\<lambda>t. cars t \<noteq> []) snapshots"
  unfolding applyFilters_def
  by (induction snapshots) (simp_all add: filterTrain_no_criteria [OF assms])

text \<open>
  Claim C9, as amended.  With every criterion absent (or the empty string),
  \<open>applyFilters\<close> returns the trains that have at least one car, in the same order and
  with the same cars and cargo items; a train without cars is dropped by the guard on
  \<open>filteredCars.length\<close>.  A list in which every train has a car is returned unchanged.
\<close>

theorem applyFilters_noQuery:
  assumes "\<not> truthy (q_awb q)" "\<not> truthy (q_airwayBill q)" "\<not> truthy (q_trainName q)"
    "\<not> truthy (q_carNumber q)" "\<not> truthy (q_station q)" "\<not> truthy (q_status q)"
  shows "applyFilters snapshots q = filter (\<lambda>t. cars t \<noteq> []) snapshots \<and>
         ((\<forall>t \<in> set snapshots. cars t \<noteq> []) \<longrightarrow> applyFilters snapshots q = snapshots)"
  by (simp add: applyFilters_no_criteria [OF assms])

text \<open>The scenario train under the query without parameters.\<close>

theorem applyFilters_noQuery_witness:
  "applyFilters [scTrain] noQuery = [scTrain]"
proof -
  have n: "\<not> truthy (q_awb noQuery)" "\<not> truthy (q_airwayBill noQuery)"
    "\<not> truthy (q_trainName noQuery)" "\<not> truthy (q_carNumber noQuery)"
    "\<not> truthy (q_station noQuery)" "\<not> truthy (q_status noQuery)"
    by (simp_all add: noQuery_def truthy_def)
  have c: "\<forall>t \<in> set [scTrain]. cars t \<noteq> []"
    by (simp add: scTrain_def)
  from applyFilters_noQuery [OF n, of "[scTrain]"] c show ?thesis by blast
qed

text \<open>
  Claim C9 as stated fails: a snapshot list that holds a train without cars is not
  returned unchanged.
\<close>

theorem applyFilters_noQuery_counterexample:
  "applyFilters [emptyTrain] noQuery \<noteq> [emptyTrain]"
  by (simp add: applyFilters_def filterTrain_def noQuery_def orElse_def truthy_def emptyTrain_def)

lemma awbKept_station_miss:
  "s \<noteq> [] \<Longrightarrow> stationMisses s a \<Longrightarrow> \<not> awbKept f (Some s) st a"
  by (simp add: awbKept_def stationMisses_def truthy_def)

lemma filterCar_station_miss:
  assumes "s \<noteq> []" "\<forall>a \<in> set (airwayBills c). stationMisses s a"
  shows "filterCar f (Some s) st c = None"
proof -
  have "filter (awbKept f (Some s) st) (airwayBills c) = []"
    using assms by (simp add: filter_empty_conv awbKept_station_miss)
  then show ?thesis by (simp add: filterCar_def)
qed

lemma filterTrain_station_miss:
  assumes "q_station q = Some s" "s \<noteq> []"
    and "\<forall>c \<in> set (cars t). \<forall>a \<in> set (airwayBills c). stationMisses s a"
  shows "filterTrain q t = None"
proof -
  have tr: "truthy (q_station q)" using assms by (simp add: truthy_def)
  have "filterBoolean (map (filterCar f (Some s) st) cs) = []" if "set cs \<subseteq> set (cars t)" for f st cs
    using that assms by (auto simp: filterBoolean_eq_Nil filterCar_station_miss)
  then show ?thesis using tr assms(1)
    by (simp add: filterTrain_def Let_def)
qed

text \<open>
  Claim C10.  The station matcher looks at the three station codes of a cargo item only
  (origin, destination, offload station with null read as the empty string): a station
  filter that is present and is contained, case-insensitively, in none of them on any
  cargo item yields the empty train list, whatever the other criteria are.
\<close>

theorem applyFilters_station_miss:
  assumes "q_station q = Some s" "s \<noteq> []"
    and "\<forall>t \<in> set snapshots. \<forall>c \<in> set (cars t). \<forall>a \<in> set (airwayBills c). stationMisses s a"
  shows "applyFilters snapshots q = []"
  using assms by (simp add: applyFilters_def filterBoolean_eq_Nil filterTrain_station_miss)

text \<open>The display name of the Chicago station matches no cargo item of the scenario train.\<close>

theorem applyFilters_station_miss_witness:
  "applyFilters [scTrain] (noQuery\<lparr>q_station := Some ''Chicago Rail Hub''\<rparr>) = []"
proof -
  have m: "\<forall>t \<in> set [scTrain]. \<forall>c \<in> set (cars t). \<forall>a \<in> set (airwayBills c).
             stationMisses ''Chicago Rail Hub'' a"
    by (simp add: scTrain_def scCar1_def scCar2_def scAwb_def stationMisses_def
          matchesString_def str_includes_def toLowerCase_def lowerChar_def sublist_code(3))
  show ?thesis
    by (rule applyFilters_station_miss [OF _ _ m]) simp_all
qed

section \<open>Cargo status only moves forward\<close>

lemma awbAdvances_refl: "awbAdvances a a"
  by (simp add: awbAdvances_def)

lemma awbAdvances_trans: "awbAdvances a b \<Longrightarrow> awbAdvances b c \<Longrightarrow> awbAdvances a c"
  by (auto simp: awbAdvances_def)

lemma cargoAdvances_refl: "cargoAdvances as as"
  by (simp add: cargoAdvances_def awbAdvances_refl)

lemma cargoAdvances_trans:
  "cargoAdvances as bs \<Longrightarrow> cargoAdvances bs cs \<Longrightarrow> cargoAdvances as cs"
  unfolding cargoAdvances_def
  by (meson awbAdvances_trans le_trans less_le_trans)

lemma carsAdvance_refl: "carsAdvance cs cs"
  by (simp add: carsAdvance_def list_all2_same cargoAdvances_refl)

lemma carsAdvance_trans:
  assumes "carsAdvance as bs" "carsAdvance bs cs"
  shows "carsAdvance as cs"
  using assms unfolding carsAdvance_def
  by (rule list_all2_trans [rotated]) (blast intro: cargoAdvances_trans)

lemma fleetAdvances_refl: "fleetAdvances ts ts"
  by (simp add: fleetAdvances_def list_all2_same carsAdvance_refl)

lemma fleetAdvances_trans:
  assumes "fleetAdvances as bs" "fleetAdvances bs cs"
  shows "fleetAdvances as cs"
  using assms unfolding fleetAdvances_def
  by (rule list_all2_trans [rotated]) (blast intro: carsAdvance_trans)

lemma deliverAwb_advances: "awbAdvances a (deliverAwb nowIso acode a)"
  by (cases "status a") (simp_all add: awbAdvances_def deliverAwb_def)

lemma departAwb_advances: "awbAdvances a (departAwb nowIso oc p a)"
  by (cases "status a") (simp_all add: awbAdvances_def departAwb_def)

lemma deliverAwb_frozen: "status a = DELIVERED \<Longrightarrow> deliverAwb nowIso acode a = a"
  by (simp add: deliverAwb_def)

lemma arriveCar_advances:
  "cargoAdvances (airwayBills c) (airwayBills (fst (arriveCar nowIso rnd train acode k c)))"
  by (simp add: arriveCar_def Let_def cargoAdvances_def nth_append deliverAwb_advances)

lemma arriveCars_advance:
  "carsAdvance cs (fst (arriveCars nowIso rnd train acode k cs))"
proof (induction cs arbitrary: k)
  case Nil
  show ?case by (simp add: carsAdvance_def)
next
  case (Cons c cs)
  obtain c' k' where c': "arriveCar nowIso rnd train acode k c = (c', k')"
    by (cases "arriveCar nowIso rnd train acode k c")
  obtain cs' k'' where cs': "arriveCars nowIso rnd train acode k' cs = (cs', k'')"
    by (cases "arriveCars nowIso rnd train acode k' cs")
  have "cargoAdvances (airwayBills c) (airwayBills c')"
    using arriveCar_advances [of c nowIso rnd train acode k] c' by simp
  moreover have "carsAdvance cs cs'"
    using Cons [of k'] cs' by simp
  ultimately show ?case
    using c' cs' by (simp add: carsAdvance_def)
qed

lemma arrive_advances:
  "carsAdvance (cars train) (cars (fst (arrive cfg nowIso rnd k train acode)))"
proof -
  let ?t = "train\<lparr>legProgress := 1\<rparr>"
  obtain cs' k' where cs': "arriveCars nowIso rnd ?t acode k (cars train) = (cs', k')"
    by (cases "arriveCars nowIso rnd ?t acode k (cars train)")
  have "carsAdvance (cars train) cs'"
    using arriveCars_advance [of "cars train" nowIso rnd ?t acode k] cs' by simp
  then show ?thesis
    using cs' by (simp add: arrive_def Let_def)
qed

lemma inTransit_advances:
  "carsAdvance (cars train) (cars (fst (inTransit nowIso rnd k train)))"
  by (simp add: inTransit_def Let_def carsAdvance_def list_all2_map2 list_all2_same
        cargoAdvances_def departAwb_advances)

lemma legRollover_cars: "cars (legRollover t) = cars t"
  by (simp add: legRollover_def Let_def)

lemma moveTrain_advances:
  "carsAdvance (cars train) (cars (fst (moveTrain cfg nowIso rnd k train f t acode)))"
proof -
  define u where "u = train\<lparr>legProgress := legProgress train +
      real_of_int (speedKmh train) * dtHours cfg / haversineKm (lat f) (lon f) (lat t) (lon t),
      displaySpeedKmh := speedKmh train\<rparr>"
  have cu: "cars u = cars train" by (simp add: u_def)
  have "carsAdvance (cars u) (cars (fst (if legProgress u \<ge> 1
           then arrive cfg nowIso rnd k u acode else inTransit nowIso rnd k u)))"
    using arrive_advances [of u cfg nowIso rnd k acode] inTransit_advances [of u nowIso rnd k]
    by simp
  then show ?thesis
    unfolding moveTrain_def Let_def u_def [symmetric]
    by (simp add: cu case_prod_unfold)
qed

lemma updateTrain_advances:
  "carsAdvance (cars t) (cars (fst (updateTrain cfg nowIso rnd k t)))"
proof -
  define t1 where "t1 = (if legProgress t \<ge> 1 then legRollover t else t)"
  have c1: "cars t1 = cars t" by (simp add: t1_def legRollover_cars)
  have mv: "carsAdvance (cars t) (cars (fst (moveTrain cfg nowIso rnd k t1 f g acode)))"
    for f g acode
    using moveTrain_advances [of t1 cfg nowIso rnd k f g acode] c1 by simp
  show ?thesis
    unfolding updateTrain_def Let_def t1_def [symmetric]
    by (simp add: carsAdvance_refl c1 mv split: option.splits)
qed

lemma updateTrainsFrom_advances:
  "fleetAdvances ts (updateTrainsFrom cfg nowIso rnd k ts)"
proof (induction ts arbitrary: k)
  case Nil
  show ?case by (simp add: fleetAdvances_def)
next
  case (Cons t ts)
  obtain t' k' where t': "updateTrain cfg nowIso rnd k t = (t', k')"
    by (cases "updateTrain cfg nowIso rnd k t")
  have "carsAdvance (cars t) (cars t')"
    using updateTrain_advances [of t cfg nowIso rnd k] t' by simp
  then show ?case
    using Cons [of k'] t' by (simp add: fleetAdvances_def)
qed

lemma runTicks_advances: "fleetAdvances trains (runTicks cfg ticks trains)"
proof (induction ticks arbitrary: trains)
  case Nil
  show ?case by (simp add: fleetAdvances_refl)
next
  case (Cons tick ticks)
  obtain nowIso rnd where tick: "tick = (nowIso, rnd)" by (cases tick)
  have "fleetAdvances trains (updateTrains cfg nowIso rnd trains)"
    by (simp add: updateTrains_def updateTrainsFrom_advances)
  then show ?case
    using Cons [of "updateTrains cfg nowIso rnd trains"] tick
    by (auto intro: fleetAdvances_trans)
qed

lemma fleetAdvances_delivered:
  assumes "fleetAdvances ts ts'" "n < length ts" "m < length (cars (ts ! n))"
    and "j < length (airwayBills (cars (ts ! n) ! m))"
    and "status (airwayBills (cars (ts ! n) ! m) ! j) = DELIVERED"
  shows "airwayBills (cars (ts' ! n) ! m) ! j = airwayBills (cars (ts ! n) ! m) ! j"
proof -
  have "carsAdvance (cars (ts ! n)) (cars (ts' ! n))"
    using assms(1,2) by (simp add: fleetAdvances_def list_all2_conv_all_nth)
  then have "cargoAdvances (airwayBills (cars (ts ! n) ! m)) (airwayBills (cars (ts' ! n) ! m))"
    using assms(3) by (simp add: carsAdvance_def list_all2_conv_all_nth)
  then have "awbAdvances (airwayBills (cars (ts ! n) ! m) ! j) (airwayBills (cars (ts' ! n) ! m) ! j)"
    using assms(4) by (simp add: cargoAdvances_def)
  then show ?thesis
    using assms(5) by (simp add: awbAdvances_def)
qed

text \<open>
  Claim C1.  Over any sequence of ticks every cargo item keeps its place in its car, its
  status never moves backwards along \<open>LOADED\<close>, \<open>IN_TRANSIT\<close>, \<open>DELIVERED\<close>, and an item
  that is \<open>DELIVERED\<close> is the same record afterwards (status, \<open>deliveredAt\<close>,
  \<open>offloadedAtStationCode\<close>, \<open>lastUpdated\<close> and all other fields); the delivery step
  applied to a \<open>DELIVERED\<close> item, at any station and time, returns it unchanged.
\<close>

theorem cargo_status_monotonic:
  "fleetAdvances trains (runTicks cfg ticks trains) \<and>
   (status a = DELIVERED \<longrightarrow> deliverAwb nowIso acode a = a)"
  by (simp add: runTicks_advances deliverAwb_frozen)

text \<open>
  Two ticks of the train arriving at NYC: the item delivered at KC before is unchanged.
\<close>

theorem cargo_status_monotonic_witness:
  "airwayBills (cars (runTicks defaultConfig [(''t2'', drawZero), (''t3'', drawZero)] [arrivingTrain] ! 0) ! 0) ! 0
     = simAwb ''AWB-110001'' ''KC'' DELIVERED (Some ''t1'') (Some ''KC'') \<and>
   deliverAwb ''t2'' ''KC'' (simAwb ''AWB-110001'' ''KC'' DELIVERED (Some ''t1'') (Some ''KC''))
     = simAwb ''AWB-110001'' ''KC'' DELIVERED (Some ''t1'') (Some ''KC'')"
proof -
  let ?a = "simAwb ''AWB-110001'' ''KC'' DELIVERED (Some ''t1'') (Some ''KC'')"
  have d: "status ?a = DELIVERED"
    by (simp add: simAwb_def)
  note inst = cargo_status_monotonic [of "[arrivingTrain]" defaultConfig
      "[(''t2'', drawZero), (''t3'', drawZero)]" ?a "''t2''" "''KC''"]
  have "airwayBills (cars (runTicks defaultConfig [(''t2'', drawZero), (''t3'', drawZero)] [arrivingTrain] ! 0) ! 0) ! 0
          = airwayBills (cars ([arrivingTrain] ! 0) ! 0) ! 0"
    by (rule fleetAdvances_delivered [OF conjunct1 [OF inst]])
       (simp_all add: arrivingTrain_def simCar_def simAwb_def)
  moreover have "airwayBills (cars ([arrivingTrain] ! 0) ! 0) ! 0 = ?a"
    by (simp add: arrivingTrain_def simCar_def)
  ultimately show ?thesis
    using inst d by simp
qed

section \<open>Properties of the geo model\<close>

lemma atan2_nonneg: "0 \<le> y \<Longrightarrow> 0 \<le> atan2 y x"
proof -
  assume y: "0 \<le> y"
  have neg: "0 \<le> arctan (y / x) + pi" if "x < 0"
    using arctan_lbound [of "y / x"] pi_gt_zero by linarith
  show ?thesis
    using y neg by (auto simp: atan2_def zero_le_arctan_iff)
qed

lemma haversineKm_pos: "0 < haversineKm lat1 lon1 lat2 lon2"
proof -
  have "0 < (if 6371 * (2 * atan2 (sqrt a) (sqrt (1 - a))) = 0 then 1
             else 6371 * (2 * atan2 (sqrt a) (sqrt (1 - a))))" if "0 \<le> a" for a :: real
  proof -
    have "0 \<le> atan2 (sqrt a) (sqrt (1 - a))" using that by (simp add: atan2_nonneg)
    then show ?thesis by auto
  qed
  then show ?thesis
    unfolding haversineKm_def Let_def by (simp add: not_less)
qed

lemma haversineKm_le: "haversineKm lat1 lon1 lat2 lon2 \<le> 6371 * 4"
proof -
  have "(if 6371 * (2 * atan2 (sqrt a) (sqrt (1 - a))) = 0 then 1
             else 6371 * (2 * atan2 (sqrt a) (sqrt (1 - a)))) \<le> 6371 * 4" if "0 \<le> a" "0 \<le> 1 - a" for a :: real
  proof (cases "0 < sqrt (1 - a)")
    case True
    have "atan2 (sqrt a) (sqrt (1 - a)) = arctan (sqrt a / sqrt (1 - a))"
      using True by (simp add: atan2_def)
    then have "atan2 (sqrt a) (sqrt (1 - a)) < 2"
      using arctan_ubound [of "sqrt a / sqrt (1 - a)"] pi_half_less_two by linarith
    then show ?thesis by auto
  next
    case False
    then have z: "sqrt (1 - a) = 0" using that by (simp add: not_less)
    have "atan2 (sqrt a) 0 = pi / 2 \<or> atan2 (sqrt a) 0 = 0"
      using that by (auto simp: atan2_def)
    then have "atan2 (sqrt a) (sqrt (1 - a)) < 2" using z pi_half_less_two by auto
    then show ?thesis by auto
  qed
  then show ?thesis
    unfolding haversineKm_def Let_def by (simp add: not_less)
qed

lemma haversineKm_same: "haversineKm lat1 lon1 lat1 lon1 = 1"
  by (simp add: haversineKm_def toRad_def atan2_def)

text \<open>
  Claim C6.  For every pair of coordinates \<open>haversineKm\<close> (haversine formula, Earth
  radius 6371 km) returns a strictly positive value, and for identical coordinates,
  where the raw distance is zero, it returns the floor of 1 km; the division of the
  distance covered in a tick by the leg distance never divides by zero.
\<close>

theorem haversineKm_positive:
  "0 < haversineKm lat1 lon1 lat2 lon2 \<and> haversineKm lat1 lon1 lat1 lon1 = 1"
  by (simp add: haversineKm_pos haversineKm_same)

section \<open>Leg progress and leg index\<close>

lemma arriveCars_length: "length (fst (arriveCars nowIso rnd train acode k cs)) = length cs"
  by (induction cs arbitrary: k) (simp_all add: case_prod_unfold Let_def)

lemma arrive_fields:
  "route (fst (arrive cfg nowIso rnd k t acode)) = route t"
  "currentLegIndex (fst (arrive cfg nowIso rnd k t acode)) = currentLegIndex t"
  "speedKmh (fst (arrive cfg nowIso rnd k t acode)) = speedKmh t"
  "legProgress (fst (arrive cfg nowIso rnd k t acode)) = 1"
  by (simp_all add: arrive_def Let_def case_prod_unfold)

lemma inTransit_fields:
  "route (fst (inTransit nowIso rnd k t)) = route t"
  "currentLegIndex (fst (inTransit nowIso rnd k t)) = currentLegIndex t"
  "legProgress (fst (inTransit nowIso rnd k t)) = legProgress t"
  "0 \<le> speedKmh t \<Longrightarrow> 0 \<le> speedKmh (fst (inTransit nowIso rnd k t))"
  by (simp_all add: inTransit_def Let_def le_max_iff_disj)

lemma moveTrain_ok:
  assumes "0 \<le> dtHours cfg" "trainOk t"
  shows "trainOk (fst (moveTrain cfg nowIso rnd k t f g acode))"
proof -
  define inc where "inc = real_of_int (speedKmh t) * dtHours cfg / haversineKm (lat f) (lon f) (lat g) (lon g)"
  define u where "u = t\<lparr>legProgress := legProgress t + inc, displaySpeedKmh := speedKmh t\<rparr>"
  have inc: "0 \<le> inc"
    using assms haversineKm_pos [of "lat f" "lon f" "lat g" "lon g"]
    by (simp add: inc_def trainOk_def)
  have u: "route u = route t" "currentLegIndex u = currentLegIndex t" "speedKmh u = speedKmh t"
    "legProgress u = legProgress t + inc"
    by (simp_all add: u_def)
  have "trainOk (fst (if legProgress u \<ge> 1 then arrive cfg nowIso rnd k u acode
                      else inTransit nowIso rnd k u))"
    using assms(2) inc u
    by (auto simp: trainOk_def arrive_fields inTransit_fields)
  then show ?thesis
    unfolding moveTrain_def Let_def inc_def [symmetric] u_def [symmetric]
    by (simp add: case_prod_unfold trainOk_def)
qed

lemma legRollover_ok: "trainOk t \<Longrightarrow> trainOk (legRollover t)"
  by (auto simp: trainOk_def legRollover_def Let_def)

lemma updateTrain_ok:
  assumes "0 \<le> dtHours cfg" "trainOk t"
  shows "trainOk (fst (updateTrain cfg nowIso rnd k t))"
proof -
  define t1 where "t1 = (if legProgress t \<ge> 1 then legRollover t else t)"
  have ok1: "trainOk t1" using assms(2) by (simp add: t1_def legRollover_ok)
  have dw: "trainOk (t\<lparr>dwellRemainingHours := d, displaySpeedKmh := 0, trainLastUpdated := Some nowIso\<rparr>)" for d
    using assms(2) by (simp add: trainOk_def)
  show ?thesis
    unfolding updateTrain_def Let_def t1_def [symmetric]
    using assms ok1 dw by (simp add: moveTrain_ok split: option.splits)
qed

lemma updateTrainsFrom_ok:
  assumes "0 \<le> dtHours cfg" "\<forall>t \<in> set ts. trainOk t"
  shows "\<forall>t \<in> set (updateTrainsFrom cfg nowIso rnd k ts). trainOk t"
  using assms(2)
proof (induction ts arbitrary: k)
  case Nil
  show ?case by simp
next
  case (Cons t ts)
  obtain t' k' where t': "updateTrain cfg nowIso rnd k t = (t', k')"
    by (cases "updateTrain cfg nowIso rnd k t")
  have "trainOk t'"
    using updateTrain_ok [OF assms(1), of t nowIso rnd k] Cons.prems t' by simp
  then show ?case
    using Cons.IH [of k'] Cons.prems t' by simp
qed

lemma runTicks_ok:
  assumes "0 \<le> dtHours cfg" "\<forall>t \<in> set trains. trainOk t"
  shows "\<forall>t \<in> set (runTicks cfg ticks trains). trainOk t"
  using assms(2)
proof (induction ticks arbitrary: trains)
  case Nil
  then show ?case by simp
next
  case (Cons tick ticks)
  obtain nowIso rnd where tick: "tick = (nowIso, rnd)" by (cases tick)
  have "\<forall>t \<in> set (updateTrains cfg nowIso rnd trains). trainOk t"
    using updateTrainsFrom_ok [OF assms(1) Cons.prems] by (simp add: updateTrains_def)
  then show ?case
    using Cons.IH tick by simp
qed

lemma updateTrain_wraps:
  assumes "2 \<le> length (route t)" "\<not> 0 < dwellRemainingHours t" "1 \<le> legProgress t"
    and "currentLegIndex t = int (length (route t)) - 2"
  shows "updateTrain cfg nowIso rnd k t =
         updateTrain cfg nowIso rnd k (t\<lparr>currentLegIndex := 0, legProgress := 0\<rparr>)"
proof -
  have "legRollover t = t\<lparr>currentLegIndex := 0, legProgress := 0\<rparr>"
    using assms by (simp add: legRollover_def Let_def)
  then show ?thesis
    using assms by (simp add: updateTrain_def)
qed

text \<open>
  Claim C2.  With a tick that does not run backwards (\<open>0 \<le> dtHours\<close>), trains that
  satisfy \<open>0 \<le> legProgress \<le> 1\<close> and \<open>0 \<le> currentLegIndex \<le> route.length - 2\<close> (as
  every created train does) satisfy them after every tick; a train that reaches the end
  of its leg has \<open>legProgress\<close> exactly 1; and the tick that leaves the final leg behaves
  as the tick of the same train at \<open>currentLegIndex = 0\<close>, \<open>legProgress = 0\<close>.
\<close>

theorem leg_invariant:
  assumes "0 \<le> dtHours cfg" and "\<forall>t \<in> set trains. trainOk t"
  shows "(\<forall>t \<in> set (runTicks cfg ticks trains). trainOk t) \<and>
         (1 \<le> legProgress u + real_of_int (speedKmh u) * dtHours cfg /
                 haversineKm (lat f) (lon f) (lat g) (lon g) \<longrightarrow>
            legProgress (fst (moveTrain cfg nowIso rnd k u f g acode)) = 1) \<and>
         (2 \<le> length (route u) \<and> \<not> 0 < dwellRemainingHours u \<and> 1 \<le> legProgress u \<and>
          currentLegIndex u = int (length (route u)) - 2 \<longrightarrow>
            updateTrain cfg nowIso rnd k u =
            updateTrain cfg nowIso rnd k (u\<lparr>currentLegIndex := 0, legProgress := 0\<rparr>))"
proof (intro conjI impI)
  show "\<forall>t \<in> set (runTicks cfg ticks trains). trainOk t"
    by (rule runTicks_ok [OF assms])
next
  assume "1 \<le> legProgress u + real_of_int (speedKmh u) * dtHours cfg /
                 haversineKm (lat f) (lon f) (lat g) (lon g)"
  then show "legProgress (fst (moveTrain cfg nowIso rnd k u f g acode)) = 1"
    by (simp add: moveTrain_def Let_def case_prod_unfold arrive_fields)
next
  assume "2 \<le> length (route u) \<and> \<not> 0 < dwellRemainingHours u \<and> 1 \<le> legProgress u \<and>
          currentLegIndex u = int (length (route u)) - 2"
  then show "updateTrain cfg nowIso rnd k u =
            updateTrain cfg nowIso rnd k (u\<lparr>currentLegIndex := 0, legProgress := 0\<rparr>)"
    by (simp add: updateTrain_wraps)
qed

lemma dtHours_default: "dtHours defaultConfig = 1 / 12"
  by (simp add: dtHours_def defaultConfig_def)

lemma arrivingTrain_arrives:
  "1 \<le> legProgress arrivingTrain + real_of_int (speedKmh arrivingTrain) * dtHours defaultConfig /
          haversineKm (lat chicago) (lon chicago) (lat newYork) (lon newYork)"
proof -
  let ?h = "haversineKm (lat chicago) (lon chicago) (lat newYork) (lon newYork)"
  have h: "0 < ?h" "?h \<le> 6371 * 4"
    by (rule haversineKm_pos, rule haversineKm_le)
  have "5 / (6371 * 4) \<le> 5 / ?h"
    using h by (intro divide_left_mono) simp_all
  then have "1 / 10000 \<le> 5 / ?h" by simp
  then show ?thesis
    by (simp add: arrivingTrain_def dtHours_default)
qed

text \<open>The train one tick away from NYC, under the default configuration.\<close>

theorem leg_invariant_witness:
  "0 \<le> dtHours defaultConfig \<and> trainOk arrivingTrain \<and>
   list_all trainOk (runTicks defaultConfig [(''t2'', drawZero), (''t3'', drawZero)] [arrivingTrain]) \<and>
   legProgress (fst (moveTrain defaultConfig ''t2'' drawZero 0 arrivingTrain chicago newYork ''NYC'')) = 1 \<and>
   updateTrain defaultConfig ''t2'' drawZero 0 (arrivingTrain\<lparr>legProgress := 1\<rparr>) =
   updateTrain defaultConfig ''t2'' drawZero 0 (arrivingTrain\<lparr>legProgress := 1, currentLegIndex := 0, legProgress := 0\<rparr>)"
proof -
  have dt: "0 \<le> dtHours defaultConfig" by (simp add: dtHours_default)
  have ok: "\<forall>t \<in> set [arrivingTrain]. trainOk t"
    by (simp add: trainOk_def arrivingTrain_def)
  have fin: "2 \<le> length (route (arrivingTrain\<lparr>legProgress := 1\<rparr>)) \<and>
             \<not> 0 < dwellRemainingHours (arrivingTrain\<lparr>legProgress := 1\<rparr>) \<and>
             1 \<le> legProgress (arrivingTrain\<lparr>legProgress := 1\<rparr>) \<and>
             currentLegIndex (arrivingTrain\<lparr>legProgress := 1\<rparr>) =
               int (length (route (arrivingTrain\<lparr>legProgress := 1\<rparr>))) - 2"
    by (simp add: arrivingTrain_def)
  note inst = leg_invariant [OF dt ok, of "[(''t2'', drawZero), (''t3'', drawZero)]"
      "arrivingTrain" chicago newYork "''t2''" drawZero 0 "''NYC''"]
  note inst2 = leg_invariant [OF dt ok, of "[]"
      "arrivingTrain\<lparr>legProgress := 1\<rparr>" chicago newYork "''t2''" drawZero 0 "''NYC''"]
  show ?thesis
    using dt ok inst arrivingTrain_arrives inst2 fin
    by (simp add: list_all_iff)
qed


lemma moveTrain_arrival:
  assumes "1 \<le> legProgress u + real_of_int (speedKmh u) * dtHours cfg /
                 haversineKm (lat f) (lon f) (lat g) (lon g)"
  shows "moveTrain cfg nowIso rnd k u f g acode =
         (case arrive cfg nowIso rnd k (u\<lparr>legProgress := 1, displaySpeedKmh := speedKmh u\<rparr>) acode of
            (t, k') \<Rightarrow> (t\<lparr>trainLastUpdated := Some nowIso\<rparr>, k'))"
  using assms by (simp add: moveTrain_def Let_def arrive_def)

lemma stations_CHI_NYC:
  "stationByCode (Some ''CHI'') = Some chicago" "stationByCode (Some ''NYC'') = Some newYork"
  by (simp_all add: stationByCode_def STATIONS_def chicago_def newYork_def)

lemma awbNumber_T1_100: "generateAwbNumber (map_option (\<lambda>n. n - 1) (parseInt ''1'')) 0 100 = ''AWB-110101''"
  by (simp add: generateAwbNumber_def parseInt_def digitVal_def digitsValue_def numToString_def
        decimal.simps digitChar_def padStart_def)

lemma arrivingTrain_tick:
  "fst (updateTrain defaultConfig ''t2'' drawZero 0 arrivingTrain) =
     arrivingTrain\<lparr>legProgress := 1, displaySpeedKmh := 0, cars := arrivedCars,
       dwellRemainingHours := 5 / 60, trainLastUpdated := Some ''t2''\<rparr>"
proof -
  have el: "elemAt (route arrivingTrain) 2 = Some ''CHI''" "elemAt (route arrivingTrain) 3 = Some ''NYC''"
    by (simp_all add: elemAt_def arrivingTrain_def)
  have fl: "length (route arrivingTrain) = 4" "dwellRemainingHours arrivingTrain = 0"
    "legProgress arrivingTrain = 9999 / 10000" "currentLegIndex arrivingTrain = 2"
    by (simp_all add: arrivingTrain_def)
  have ar: "arrive defaultConfig ''t2'' drawZero 0
              (arrivingTrain\<lparr>legProgress := 1, displaySpeedKmh := speedKmh arrivingTrain\<rparr>) ''NYC'' =
            (arrivingTrain\<lparr>legProgress := 1, displaySpeedKmh := 0, cars := arrivedCars,
               dwellRemainingHours := 5 / 60\<rparr>, 26)"
    by (simp add: arrive_def arriveCar_def newAwb_def drawZero_def arrivingTrain_def
          simCar_def simAwb_def deliverAwb_def randInt_def elemAt_def nycAwb_def arrivedCars_def
          awbNumber_T1_100 defaultConfig_def)
  have "updateTrain defaultConfig ''t2'' drawZero 0 arrivingTrain =
          moveTrain defaultConfig ''t2'' drawZero 0 arrivingTrain chicago newYork ''NYC''"
    by (simp add: updateTrain_def Let_def fl el stations_CHI_NYC)
  then show ?thesis
    using moveTrain_arrival [OF arrivingTrain_arrives, of "''t2''" drawZero 0 "''NYC''"] ar
    by simp
qed

section \<open>Cargo generated on arrival\<close>

text \<open>
  Claim C4 fails on the cargo generated at an arrival.  The train arrives at NYC, the
  last station of its route; the item loaded there has NYC as origin and NYC as
  destination: the destination index is drawn from \<open>currentLegIndex + 1\<close> on, which is
  the index of the arrival station itself.
\<close>

theorem arrival_cargo_destination_is_origin:
  "originStationCode (last (airwayBills
      (cars (fst (updateTrain defaultConfig ''t2'' drawZero 0 arrivingTrain)) ! 0))) = Some ''NYC'' \<and>
   destStationCode (last (airwayBills
      (cars (fst (updateTrain defaultConfig ''t2'' drawZero 0 arrivingTrain)) ! 0))) = Some ''NYC''"
  by (simp add: arrivingTrain_tick arrivedCars_def nycAwb_def)

text \<open>
  Claim C7 fails on the cargo generated at an arrival.  The item loaded on a car is
  numbered by \<open>generateAwbNumber\<close> from the index of the train, the car index 0 whatever
  the car, and a random index: at this arrival the items loaded on the first two cars
  both carry the number \<open>AWB-110101\<close> (as those of the other three cars do), and the
  identifiers of the fleet are no longer distinct.
\<close>

theorem arrival_awbNumbers_repeat:
  "awbNumber (last (airwayBills
      (cars (fst (updateTrain defaultConfig ''t2'' drawZero 0 arrivingTrain)) ! 0))) = ''AWB-110101'' \<and>
   awbNumber (last (airwayBills
      (cars (fst (updateTrain defaultConfig ''t2'' drawZero 0 arrivingTrain)) ! 1))) = ''AWB-110101'' \<and>
   \<not> distinct (fleetAwbNumbers (updateTrains defaultConfig ''t2'' drawZero [arrivingTrain]))"
proof -
  have "updateTrains defaultConfig ''t2'' drawZero [arrivingTrain] =
          [fst (updateTrain defaultConfig ''t2'' drawZero 0 arrivingTrain)]"
    by (simp add: updateTrains_def case_prod_unfold)
  then show ?thesis
    by (simp add: arrivingTrain_tick arrivedCars_def fleetAwbNumbers_def nycAwb_def)
qed

section \<open>Identifiers of cargo items\<close>

lemma below_ten: "(d::nat) < 10 \<Longrightarrow> d \<in> {0, 1, 2, 3, 4, 5, 6, 7, 8, 9}"
  by auto

lemma digitVal_digitChar_each:
  "\<forall>d \<in> {0, 1, 2, 3, 4, 5, 6, 7, 8, 9}. digitVal (digitChar d) = Some d"
  by (simp add: digitVal_def digitChar_def)

lemma digitVal_digitChar: "d < 10 \<Longrightarrow> digitVal (digitChar d) = Some d"
  using digitVal_digitChar_each below_ten by blast

lemma digitChar_inj:
  assumes "a < 10" "b < 10" "digitChar a = digitChar b"
  shows "a = b"
proof -
  have "Some a = digitVal (digitChar a)" using assms(1) by (simp only: digitVal_digitChar)
  also have "\<dots> = digitVal (digitChar b)" by (simp only: assms(3))
  also have "\<dots> = Some b" using assms(2) by (simp only: digitVal_digitChar)
  finally show ?thesis by simp
qed

lemma digitChar_zero: "d < 10 \<Longrightarrow> digitChar d = CHR ''0'' \<longleftrightarrow> d = 0"
  using digitChar_inj [of d 0] by (auto simp: digitChar_def)

lemma decimal_small: "n < 10 \<Longrightarrow> decimal n = [digitChar n]"
  by (simp add: decimal.simps)

lemma decimal_large: "10 \<le> n \<Longrightarrow> decimal n = decimal (n div 10) @ [digitChar (n mod 10)]"
  by (subst decimal.simps) simp

lemma decimal_nonempty: "decimal n \<noteq> []"
  by (subst decimal.simps) simp

lemma length_decimal_one: "length (decimal n) = Suc 0 \<longleftrightarrow> n < 10"
proof (cases "n < 10")
  case True
  then show ?thesis by (simp add: decimal_small)
next
  case False
  then have "length (decimal n) = Suc (length (decimal (n div 10)))"
    by (simp add: decimal_large)
  moreover have "0 < length (decimal (n div 10))"
    using decimal_nonempty by simp
  ultimately show ?thesis using False by simp
qed

lemma decimal_inj: "decimal m = decimal n \<Longrightarrow> m = n"
proof (induction m arbitrary: n rule: decimal.induct)
  case (1 m)
  show ?case
  proof (cases "m < 10")
    case True
    then have "length (decimal n) = Suc 0" using "1.prems" [symmetric] by (simp add: decimal_small)
    then have n: "n < 10" by (simp add: length_decimal_one)
    then show ?thesis using True "1.prems" by (simp add: decimal_small digitChar_inj)
  next
    case False
    then have "length (decimal m) \<noteq> Suc 0" by (simp add: length_decimal_one)
    then have n: "\<not> n < 10" using "1.prems" by (simp add: length_decimal_one)
    have "decimal (m div 10) @ [digitChar (m mod 10)] = decimal (n div 10) @ [digitChar (n mod 10)]"
      using False n "1.prems" by (simp add: decimal_large)
    then have a: "decimal (m div 10) = decimal (n div 10)" and b: "digitChar (m mod 10) = digitChar (n mod 10)"
      by simp_all
    have "m div 10 = n div 10" using "1.IH" [OF False a] .
    moreover have "m mod 10 = n mod 10" using b by (intro digitChar_inj) simp_all
    ultimately show ?thesis by (metis div_mult_mod_eq)
  qed
qed

lemma hd_decimal: "0 < n \<Longrightarrow> hd (decimal n) \<noteq> CHR ''0''"
proof (induction n rule: decimal.induct)
  case (1 n)
  show ?case
  proof (cases "n < 10")
    case True
    then show ?thesis using "1.prems" by (simp add: decimal_small digitChar_zero)
  next
    case False
    then have "0 < n div 10" by simp
    then have "hd (decimal (n div 10)) \<noteq> CHR ''0''" using "1.IH" False by simp
    then show ?thesis using False by (simp add: decimal_large decimal_nonempty)
  qed
qed

lemma length_decimal_le4: "n < 10000 \<Longrightarrow> length (decimal n) \<le> 4"
proof -
  assume n: "n < 10000"
  have l: "length (decimal k) \<le> Suc (length (decimal (k div 10)))" for k
    by (cases "k < 10") (simp_all add: decimal_small decimal_large)
  have "n div 10 div 10 div 10 < 10" using n by simp
  then have "length (decimal (n div 10 div 10 div 10)) = Suc 0" by (simp add: length_decimal_one)
  then show ?thesis
    using l [of n] l [of "n div 10"] l [of "n div 10 div 10"] by linarith
qed

lemma dropWhile_zeros:
  "d \<noteq> [] \<Longrightarrow> hd d \<noteq> CHR ''0'' \<Longrightarrow> dropWhile (\<lambda>c. c = CHR ''0'') (replicate a (CHR ''0'') @ d) = d"
  by (induction a) (simp_all add: dropWhile_eq_self_iff)

lemma padStart_decimal_inj:
  assumes "0 < m" "0 < n" "padStart 4 (CHR ''0'') (decimal m) = padStart 4 (CHR ''0'') (decimal n)"
  shows "m = n"
proof -
  have "dropWhile (\<lambda>c. c = CHR ''0'') (padStart 4 (CHR ''0'') (decimal k)) = decimal k" if "0 < k" for k
    using that by (simp add: padStart_def dropWhile_zeros decimal_nonempty hd_decimal)
  then have "decimal m = decimal n" using assms by metis
  then show ?thesis by (rule decimal_inj)
qed

lemma length_padStart4: "n < 10000 \<Longrightarrow> length (padStart 4 c (decimal n)) = 4"
  using length_decimal_le4 [of n] by (simp add: padStart_def)

lemma numToString_nonneg: "0 \<le> n \<Longrightarrow> numToString (Some n) = decimal (nat n)"
  by (simp add: numToString_def)

lemma decimal_10: "decimal 10 = ''10''"
  by (simp add: decimal.simps digitChar_def)

lemma train_car_prefix_inj:
  assumes t: "0 < t" "t \<le> 10" "0 < t'" "t' \<le> 10" and c: "0 < c" "0 < c'"
    and eq: "decimal t @ decimal c = decimal t' @ decimal c'"
  shows "t = t' \<and> c = c'"
proof (cases "length (decimal t) = length (decimal t')")
  case True
  then have "decimal t = decimal t'" "decimal c = decimal c'" using eq by simp_all
  then show ?thesis by (simp add: decimal_inj)
next
  case False
  have clash: False
    if a: "a < 10" "0 < a" and e: "decimal a @ decimal x = decimal 10 @ decimal y" and x: "0 < x"
    for a x y :: nat
  proof -
    have "digitChar a # decimal x = CHR ''1'' # CHR ''0'' # decimal y"
      using a e by (simp add: decimal_small decimal_10)
    then have "hd (decimal x) = CHR ''0''" by auto
    then show False using hd_decimal [OF x] by simp
  qed
  have "\<not> (t < 10 \<and> t' < 10)"
    using False length_decimal_one [of t] length_decimal_one [of t'] by auto
  moreover have "\<not> (t = 10 \<and> t' = 10)"
    using False by auto
  ultimately have "t = 10 \<and> t' < 10 \<or> t < 10 \<and> t' = 10"
    using t by linarith
  then show ?thesis
    using clash [of t' c' c] clash [of t c c'] eq t c by auto
qed

lemma generateAwbNumber_inj:
  assumes "0 \<le> t" "t < 10" "0 \<le> t'" "t' < 10" "0 \<le> c" "0 \<le> c'"
    and "0 \<le> j" "j < 9999" "0 \<le> j'" "j' < 9999"
    and eq: "generateAwbNumber (Some t) c j = generateAwbNumber (Some t') c' j'"
  shows "t = t' \<and> c = c' \<and> j = j'"
proof -
  let ?p = "\<lambda>j. padStart 4 (CHR ''0'') (decimal (nat (j + 1)))"
  have e: "(decimal (nat (t + 1)) @ decimal (nat (c + 1))) @ ?p j =
           (decimal (nat (t' + 1)) @ decimal (nat (c' + 1))) @ ?p j'"
    using eq assms(1-10) by (simp add: generateAwbNumber_def numToString_nonneg)
  have len: "length (?p j) = length (?p j')"
    using assms(7-10) by (simp add: length_padStart4)
  have both: "decimal (nat (t + 1)) @ decimal (nat (c + 1)) =
                decimal (nat (t' + 1)) @ decimal (nat (c' + 1)) \<and> ?p j = ?p j'"
    using e len append_eq_append_conv [of _ _ "?p j" "?p j'"] by blast
  then have pre: "decimal (nat (t + 1)) @ decimal (nat (c + 1)) =
                        decimal (nat (t' + 1)) @ decimal (nat (c' + 1))"
    and suf: "?p j = ?p j'"
    by simp_all
  have "nat (j + 1) = nat (j' + 1)"
    using suf assms(7,9) by (intro padStart_decimal_inj) simp_all
  moreover have "nat (t + 1) = nat (t' + 1) \<and> nat (c + 1) = nat (c' + 1)"
    using pre assms(1-6) by (intro train_car_prefix_inj) simp_all
  ultimately show ?thesis using assms(1,3,5,6,7,9) by arith
qed


lemma randInt_bounds:
  assumes "0 \<le> r" "r < 1" "lo \<le> hi"
  shows "lo \<le> randInt r lo hi \<and> randInt r lo hi \<le> hi"
proof -
  let ?n = "real_of_int (hi - lo + 1)"
  have n: "0 < ?n" using assms(3) by simp
  have "0 \<le> r * ?n" using assms(1) n by simp
  then have lb: "0 \<le> \<lfloor>r * ?n\<rfloor>" by simp
  have "r * ?n < ?n" using assms(2) n by simp
  then have "\<lfloor>r * ?n\<rfloor> < hi - lo + 1" by (simp only: floor_less_iff)
  then show ?thesis using lb by (simp add: randInt_def)
qed

lemma randInt_count_le:
  assumes "0 \<le> r" "r < 1" "mx \<le> 9999"
  shows "randInt r 1 mx \<le> 9999"
proof (cases "1 \<le> mx")
  case True
  then show ?thesis using randInt_bounds [OF assms(1,2) True] assms(3) by linarith
next
  case False
  then have "r * real_of_int mx \<le> 0"
    using assms(1) by (simp add: mult_nonneg_nonpos)
  then have "\<lfloor>r * real_of_int mx\<rfloor> \<le> 0" by (simp add: floor_le_iff)
  then show ?thesis by (simp add: randInt_def)
qed

lemma awbLoop_length: "length (fst (awbLoop now rnd rt ti ci k i n)) = n"
  by (induction n arbitrary: k i) (simp_all add: Let_def case_prod_unfold)

lemma awbLoop_number:
  "j < n \<Longrightarrow> awbNumber (fst (awbLoop now rnd rt ti ci k i n) ! j) =
     generateAwbNumber (Some ti) ci (i + int j)"
proof (induction n arbitrary: k i j)
  case 0
  then show ?case by simp
next
  case (Suc n)
  show ?case
  proof (cases j)
    case 0
    then show ?thesis by (simp add: Let_def case_prod_unfold)
  next
    case (Suc j')
    then have "j' < n" using Suc.prems by simp
    then show ?thesis
      using Suc.IH [where j = j' and k = "k + 4" and i = "i + 1"] Suc by (simp add: Let_def case_prod_unfold add.assoc)
  qed
qed

lemma createAirwayBillsForCar_labelled:
  assumes "unitDraws rnd" "MAX_AWBS_PER_CAR cfg \<le> 9999"
  shows "carLabelled ti ci \<lparr>carNumber = cn, carType = ty,
           airwayBills = fst (createAirwayBillsForCar cfg now rnd k rt ti ci)\<rparr>"
proof -
  have "randInt (rnd k) 1 (MAX_AWBS_PER_CAR cfg) \<le> 9999"
    using assms by (intro randInt_count_le) (simp_all add: unitDraws_def)
  then have "nat (randInt (rnd k) 1 (MAX_AWBS_PER_CAR cfg)) \<le> 9999" by simp
  then show ?thesis
    by (simp add: carLabelled_def createAirwayBillsForCar_def Let_def awbLoop_length awbLoop_number)
qed

lemma carLoop_length: "length (fst (carLoop cfg clock rnd rt i k c n)) = n"
  by (induction n arbitrary: k c) (simp_all add: Let_def case_prod_unfold)

lemma carLoop_labelled:
  assumes "unitDraws rnd" "MAX_AWBS_PER_CAR cfg \<le> 9999"
  shows "m < n \<Longrightarrow> carLabelled i (c + int m) (fst (carLoop cfg clock rnd rt i k c n) ! m)"
proof (induction n arbitrary: k c m)
  case 0
  then show ?case by simp
next
  case (Suc n)
  show ?case
  proof (cases m)
    case 0
    then show ?thesis
      using createAirwayBillsForCar_labelled [OF assms]
      by (simp add: Let_def case_prod_unfold)
  next
    case (Suc m')
    then have "m' < n" using Suc.prems by simp
    then show ?thesis
      using Suc.IH [where m = m' and c = "c + 1"] Suc by (simp add: Let_def case_prod_unfold add.assoc)
  qed
qed

lemma trainLoop_length:
  "trainLoop cfg clock rnd k i n = Some ts \<Longrightarrow> length ts = n"
  by (induction n arbitrary: k i ts)
     (auto simp: Let_def case_prod_unfold split: option.splits)

lemma trainLoop_labelled:
  assumes "unitDraws rnd" "MAX_AWBS_PER_CAR cfg \<le> 9999"
  shows "trainLoop cfg clock rnd k i n = Some ts \<Longrightarrow> p < n \<Longrightarrow> m < length (cars (ts ! p)) \<Longrightarrow>
         carLabelled (i + int p) (int m) (cars (ts ! p) ! m)"
proof (induction n arbitrary: k i ts p)
  case 0
  then show ?case by simp
next
  case (Suc n)
  from Suc.prems(1) obtain rt rest k' where
    rt: "randChoice (rnd k) ROUTES = Some rt"
    and rest: "trainLoop cfg clock rnd k' (i + 1) n = Some rest"
    and hd: "cars (hd ts) = fst (carLoop cfg clock rnd rt i (k + 3) 0
                (nat (randInt (rnd (k + 2)) 5 (MAX_CARS_PER_TRAIN cfg))))"
    and ts: "ts = hd ts # rest"
    by (auto simp: Let_def case_prod_unfold split: option.splits)
  show ?case
  proof (cases p)
    case 0
    have "m < nat (randInt (rnd (k + 2)) 5 (MAX_CARS_PER_TRAIN cfg))"
      using Suc.prems(3) 0 ts hd by (metis carLoop_length nth_Cons_0)
    then have "carLabelled i (0 + int m) (cars (hd ts) ! m)"
      unfolding hd by (rule carLoop_labelled [OF assms])
    then show ?thesis using 0 ts by (metis add_0 nth_Cons_0 of_nat_0 add.right_neutral)
  next
    case (Suc p')
    then have p': "p' < n" using Suc.prems(2) by simp
    have "m < length (cars (rest ! p'))" using Suc.prems(3) Suc ts by (metis nth_Cons_Suc)
    then have "carLabelled (i + 1 + int p') (int m) (cars (rest ! p') ! m)"
      using Suc.IH [OF rest p'] by simp
    moreover have "ts ! p = rest ! p'" using Suc ts by (metis nth_Cons_Suc)
    ultimately show ?thesis using Suc by (simp add: add.assoc)
  qed
qed

text \<open>
  The sibling path: in the fleet that \<open>createInitialTrains\<close> builds, where an item is
  numbered from the indices of its train, its car and its place in the car, two items at
  different places have different \<open>awbNumber\<close> strings, for at most 10 trains and at most
  9999 items per car (the draws of \<open>Math.random()\<close> lying in \<open>[0, 1)\<close>).
\<close>

lemma initial_awbNumbers_unique:
  assumes cfg: "TRAIN_COUNT cfg \<le> 10" "MAX_AWBS_PER_CAR cfg \<le> 9999"
    and rnd: "unitDraws rnd"
    and ts: "createInitialTrains cfg clock rnd = Some ts"
    and pos: "validPos ts n m j" "validPos ts n' m' j'"
    and ne: "(n, m, j) \<noteq> (n', m', j')"
  shows "awbNumber (awbAt ts n m j) \<noteq> awbNumber (awbAt ts n' m' j')"
proof
  assume eq: "awbNumber (awbAt ts n m j) = awbNumber (awbAt ts n' m' j')"
  have len: "length ts = nat (TRAIN_COUNT cfg)"
    using ts by (simp add: createInitialTrains_def trainLoop_length)
  have lab: "carLabelled (int p) (int q) (cars (ts ! p) ! q)"
    if "p < length ts" "q < length (cars (ts ! p))" for p q
    using trainLoop_labelled [OF rnd cfg(2), of clock 0 0 "nat (TRAIN_COUNT cfg)" ts p q] ts that len
    by (simp add: createInitialTrains_def)
  have a: "carLabelled (int n) (int m) (cars (ts ! n) ! m)"
    and b: "carLabelled (int n') (int m') (cars (ts ! n') ! m')"
    using lab pos by (simp_all add: validPos_def)
  have n10: "int n < 10" "int n' < 10"
    using pos len cfg(1) unfolding validPos_def by linarith+
  have j: "int j < 9999" "int j' < 9999"
    using a b pos by (simp_all add: carLabelled_def validPos_def)
  have "generateAwbNumber (Some (int n)) (int m) (int j) =
        generateAwbNumber (Some (int n')) (int m') (int j')"
    using eq a b pos by (simp add: carLabelled_def validPos_def awbAt_def)
  then have "int n = int n' \<and> int m = int m' \<and> int j = int j'"
    using n10 j by (intro generateAwbNumber_inj) simp_all
  then show False using ne by simp
qed

lemma initial_fleet_drawZero:
  "createInitialTrains oneTrainConfig (\<lambda>i c. ''t0'') drawZero = Some [initialTrain]"
  by (simp add: createInitialTrains_def oneTrainConfig_def defaultConfig_def drawZero_def
        randChoice_def randInt_def elemAt_def ROUTES_def CAR_TYPES_def TRAIN_NAMES_def
        createAirwayBillsForCar_def generateCarNumber_def generateAwbNumber_def
        numToString_def decimal.simps digitChar_def padStart_def eval_nat_numeral
        initialTrain_def simCar_def simAwb_def)

text \<open>The first two cars of the fleet created with every draw 0.\<close>

lemma initial_awbNumbers_unique_example:
  "createInitialTrains oneTrainConfig (\<lambda>i c. ''t0'') drawZero = Some [initialTrain] \<and>
   awbNumber (awbAt [initialTrain] 0 0 0) \<noteq> awbNumber (awbAt [initialTrain] 0 1 0)"
proof
  show c: "createInitialTrains oneTrainConfig (\<lambda>i c. ''t0'') drawZero = Some [initialTrain]"
    by (rule initial_fleet_drawZero)
  show "awbNumber (awbAt [initialTrain] 0 0 0) \<noteq> awbNumber (awbAt [initialTrain] 0 1 0)"
  proof (rule initial_awbNumbers_unique [OF _ _ _ c])
    show "TRAIN_COUNT oneTrainConfig \<le> 10" "MAX_AWBS_PER_CAR oneTrainConfig \<le> 9999"
      by (simp_all add: oneTrainConfig_def defaultConfig_def)
    show "unitDraws drawZero" by (simp add: unitDraws_def drawZero_def)
    show "validPos [initialTrain] 0 0 0" "validPos [initialTrain] 0 1 0"
      by (simp_all add: validPos_def initialTrain_def simCar_def)
    show "(0::nat, 0::nat, 0::nat) \<noteq> (0, 1, 0)" by simp
  qed
qed

text \<open>
  The bound on the trains is needed: the three numbers are concatenated without a
  separator, so car 11 of train 1 and car 1 of train 11 number their first item alike.
\<close>

lemma generateAwbNumber_eleventh_train:
  "generateAwbNumber (Some 0) 10 0 = generateAwbNumber (Some 10) 0 0"
  by (simp add: generateAwbNumber_def numToString_def decimal.simps digitChar_def padStart_def)

text \<open>
  The cargo created with a train has its destination strictly later on the route than
  its origin: the destination index is drawn from \<open>originIdx + 1\<close> on.
\<close>

lemma elemAt_nat: "0 \<le> i \<Longrightarrow> i < int (length xs) \<Longrightarrow> elemAt xs i = Some (xs ! nat i)"
  by (simp add: elemAt_def)

lemma awbLoop_dest_after_origin:
  assumes "unitDraws rnd" "2 \<le> length rt"
  shows "a \<in> set (fst (awbLoop now rnd rt ti ci k i n)) \<Longrightarrow>
         \<exists>oi di. oi < di \<and> di < length rt \<and>
           originStationCode a = Some (rt ! oi) \<and> destStationCode a = Some (rt ! di)"
proof (induction n arbitrary: k i)
  case 0
  then show ?case by simp
next
  case (Suc n)
  define oi where "oi = randInt (rnd k) 0 (int (length rt) - 2)"
  define di where "di = randInt (rnd (k + 1)) (oi + 1) (int (length rt) - 1)"
  have r: "0 \<le> rnd k" "rnd k < 1" "0 \<le> rnd (k + 1)" "rnd (k + 1) < 1"
    using assms(1) by (simp_all add: unitDraws_def)
  have o: "0 \<le> oi \<and> oi \<le> int (length rt) - 2"
    unfolding oi_def using assms(2) by (intro randInt_bounds r) simp
  then have d: "oi + 1 \<le> di \<and> di \<le> int (length rt) - 1"
    unfolding di_def by (intro randInt_bounds r) simp
  show ?case
  proof (cases "a \<in> set (fst (awbLoop now rnd rt ti ci (k + 4) (i + 1) n))")
    case True
    then show ?thesis by (rule Suc.IH)
  next
    case False
    then have "originStationCode a = elemAt rt oi" "destStationCode a = elemAt rt di"
      using Suc.prems by (auto simp: Let_def case_prod_unfold oi_def di_def)
    then have "originStationCode a = Some (rt ! nat oi)" "destStationCode a = Some (rt ! nat di)"
      using o d by (simp_all add: elemAt_nat)
    moreover have "nat oi < nat di" "nat di < length rt" using o d by linarith+
    ultimately show ?thesis by blast
  qed
qed

text \<open>
  Every train of a created fleet is on a route of four stations, on leg 0, with a
  progress in \<open>[0, 1)\<close> and a speed of at least 40 km/h: it satisfies \<open>trainOk\<close>.
\<close>

lemma randChoice_mem: "randChoice r arr = Some x \<Longrightarrow> x \<in> set arr"
  by (auto simp: randChoice_def elemAt_def split: if_splits)

lemma ROUTES_length: "rt \<in> set ROUTES \<Longrightarrow> length rt = 4"
  by (auto simp: ROUTES_def)

lemma trainLoop_Suc_Some:
  assumes "trainLoop cfg clock rnd k i (Suc n) = Some ts"
  shows "\<exists>rt t rest k' j. randChoice (rnd k) ROUTES = Some rt \<and>
           trainLoop cfg clock rnd k' (i + 1) n = Some rest \<and> ts = t # rest \<and>
           route t = rt \<and> currentLegIndex t = 0 \<and>
           speedKmh t = randInt (rnd (k + 1)) 40 80 \<and> legProgress t = rnd j"
proof (cases "randChoice (rnd k) ROUTES")
  case None
  then show ?thesis using assms by simp
next
  case (Some rt)
  define k' where "k' = snd (carLoop cfg clock rnd rt i (k + 3) 0
                          (nat (randInt (rnd (k + 2)) 5 (MAX_CARS_PER_TRAIN cfg))))"
  show ?thesis
  proof (cases "trainLoop cfg clock rnd (k' + 2) (i + 1) n")
    case None
    then show ?thesis using assms Some by (simp add: Let_def case_prod_unfold k'_def)
  next
    case rest: (Some rest)
    have "\<exists>t. ts = t # rest \<and> route t = rt \<and> currentLegIndex t = 0 \<and>
              speedKmh t = randInt (rnd (k + 1)) 40 80 \<and> legProgress t = rnd (k' + 1)"
      using assms Some rest by (auto simp: Let_def case_prod_unfold k'_def)
    then show ?thesis using Some rest by blast
  qed
qed

lemma trainLoop_ok:
  assumes "unitDraws rnd"
  shows "trainLoop cfg clock rnd k i n = Some ts \<Longrightarrow> \<forall>t \<in> set ts. trainOk t"
proof (induction n arbitrary: k i ts)
  case 0
  then show ?case by simp
next
  case (Suc n)
  from trainLoop_Suc_Some [OF Suc.prems] obtain rt t rest k' j where
    rt: "randChoice (rnd k) ROUTES = Some rt"
    and rest: "trainLoop cfg clock rnd k' (i + 1) n = Some rest"
    and ts: "ts = t # rest"
    and t: "route t = rt" "currentLegIndex t = 0"
      "speedKmh t = randInt (rnd (k + 1)) 40 80" "legProgress t = rnd j"
    by blast
  have len: "length rt = 4" using rt by (intro ROUTES_length randChoice_mem)
  have r: "0 \<le> rnd m \<and> rnd m < 1" for m using assms by (simp add: unitDraws_def)
  have "40 \<le> randInt (rnd (k + 1)) 40 80"
    using randInt_bounds [of "rnd (k + 1)" 40 80] r by simp
  then have "trainOk t"
    using t len r [of j] by (simp add: trainOk_def)
  moreover have "\<forall>u \<in> set rest. trainOk u" using Suc.IH [OF rest] .
  ultimately show ?case using ts by simp
qed

lemma createInitialTrains_ok:
  "unitDraws rnd \<Longrightarrow> createInitialTrains cfg clock rnd = Some ts \<Longrightarrow> \<forall>t \<in> set ts. trainOk t"
  unfolding createInitialTrains_def by (rule trainLoop_ok)

section \<open>The distance from LA to KC\<close>

text \<open>Bounds of sine and cosine from their Taylor polynomials, and of \<open>pi\<close>.\<close>

lemma sin_coeffs:
  "sin_coeff 0 = 0" "sin_coeff 1 = 1" "sin_coeff 2 = 0" "sin_coeff 3 = - 1 / 6"
  "sin_coeff 4 = 0" "sin_coeff 5 = 1 / 120" "sin_coeff 6 = 0" "sin_coeff (Suc 0) = 1"
  by (simp_all add: sin_coeff_def fact_numeral)

lemma cos_coeffs:
  "cos_coeff 0 = 1" "cos_coeff 1 = 0" "cos_coeff 2 = - 1 / 2" "cos_coeff 3 = 0"
  "cos_coeff 4 = 1 / 24" "cos_coeff 5 = 0" "cos_coeff 6 = - 1 / 720" "cos_coeff 7 = 0"
  "cos_coeff (Suc 0) = 0"
  by (simp_all add: cos_coeff_def fact_numeral)

lemma sum_below_7: "(\<Sum>m<7. f m) = ((f :: nat \<Rightarrow> real) 0 + f 1 + f 2 + f 3 + f 4 + f 5 + f 6)"
proof -
  have "{..<7::nat} = {0, 1, 2, 3, 4, 5, 6}" by auto
  then show ?thesis by simp
qed

lemma sum_below_8: "(\<Sum>m<8. f m) = ((f :: nat \<Rightarrow> real) 0 + f 1 + f 2 + f 3 + f 4 + f 5 + f 6 + f 7)"
proof -
  have "{..<8::nat} = {0, 1, 2, 3, 4, 5, 6, 7}" by auto
  then show ?thesis by simp
qed

lemma sin_taylor: "\<bar>sin (x::real) - (x - x ^ 3 / 6 + x ^ 5 / 120)\<bar> \<le> \<bar>x\<bar> ^ 7 / 5040"
proof -
  have s: "(\<Sum>m<7. sin_coeff m * x ^ m) = x - x ^ 3 / 6 + x ^ 5 / 120"
    by (simp add: sum_below_7 sin_coeffs)
  have f: "inverse (fact 7) = (1 / 5040 :: real)"
    by (simp add: fact_numeral inverse_eq_divide)
  have "\<bar>sin x - (x - x ^ 3 / 6 + x ^ 5 / 120)\<bar> \<le> 1 / 5040 * \<bar>x\<bar> ^ 7"
    using Maclaurin_sin_bound [of x 7] unfolding s f .
  then show ?thesis by simp
qed

lemma sin_taylor_nonneg:
  assumes "0 \<le> (x::real)"
  shows "\<bar>sin x - (x - x ^ 3 / 6 + x ^ 5 / 120)\<bar> \<le> x ^ 7 / 5040"
  using sin_taylor [of x] assms by (simp only: abs_of_nonneg)

lemma sin_upper: "0 \<le> x \<Longrightarrow> sin (x::real) \<le> x - x ^ 3 / 6 + x ^ 5 / 120 + x ^ 7 / 5040"
  using sin_taylor_nonneg [of x] by linarith

lemma sin_lower: "0 \<le> x \<Longrightarrow> x - x ^ 3 / 6 + x ^ 5 / 120 - x ^ 7 / 5040 \<le> sin (x::real)"
  using sin_taylor_nonneg [of x] by linarith

lemma cos_taylor:
  "\<bar>cos (x::real) - (1 - x ^ 2 / 2 + x ^ 4 / 24 - x ^ 6 / 720)\<bar> \<le> x ^ 8 / 40320"
proof -
  obtain t where t: "cos x = (\<Sum>m<8. cos_coeff m * x ^ m) + cos (t + 1 / 2 * real 8 * pi) / fact 8 * x ^ 8"
    using Maclaurin_cos_expansion [of x 8] by blast
  have s: "(\<Sum>m<8. cos_coeff m * x ^ m) = 1 - x ^ 2 / 2 + x ^ 4 / 24 - x ^ 6 / 720"
    by (simp add: sum_below_8 cos_coeffs)
  have f: "fact 8 = (40320::real)" by (simp add: fact_numeral)
  have x8: "0 \<le> x ^ 8" by simp
  have "\<bar>cos (t + 1 / 2 * real 8 * pi) / fact 8 * x ^ 8\<bar> = \<bar>cos (t + 1 / 2 * real 8 * pi)\<bar> * (x ^ 8 / 40320)"
    using x8 by (simp add: f abs_mult)
  also have "\<dots> \<le> 1 * (x ^ 8 / 40320)"
    using x8 by (intro mult_right_mono abs_cos_le_one) simp
  finally have "\<bar>cos (t + 1 / 2 * real 8 * pi) / fact 8 * x ^ 8\<bar> \<le> x ^ 8 / 40320" by simp
  then show ?thesis unfolding t s by simp
qed

lemma cos_upper: "cos (x::real) \<le> 1 - x ^ 2 / 2 + x ^ 4 / 24 - x ^ 6 / 720 + x ^ 8 / 40320"
  using cos_taylor [of x] by linarith

lemma cos_lower: "1 - x ^ 2 / 2 + x ^ 4 / 24 - x ^ 6 / 720 - x ^ 8 / 40320 \<le> cos (x::real)"
  using cos_taylor [of x] by linarith

lemma pi_lower: "31415 / 10000 < pi"
proof (rule ccontr)
  assume "\<not> 31415 / 10000 < pi"
  then have le: "pi / 6 \<le> 31415 / 60000" by simp
  have "31415 / 60000 \<le> pi / 2" using pi_ge_two by simp
  then have "sin (pi / 6) \<le> sin (31415 / 60000 :: real)"
    using le pi_gt_zero by (intro sin_monotone_2pi_le) simp_all
  moreover have "sin (31415 / 60000 :: real) < 1 / 2"
  proof -
    have "sin (31415 / 60000 :: real) \<le> 31415 / 60000 - (31415 / 60000) ^ 3 / 6 +
            (31415 / 60000) ^ 5 / 120 + (31415 / 60000) ^ 7 / 5040"
      by (rule sin_upper) simp
    also have "\<dots> < 1 / 2" by (simp add: power_divide)
    finally show ?thesis .
  qed
  ultimately show False by (simp add: sin_30)
qed

lemma pi_upper: "pi < 31417 / 10000"
proof (rule ccontr)
  assume "\<not> pi < 31417 / 10000"
  then have le: "31417 / 60000 \<le> pi / 6" by simp
  have "sin (31417 / 60000 :: real) \<le> sin (pi / 6)"
    using le pi_gt_zero by (intro sin_monotone_2pi_le) simp_all
  moreover have "1 / 2 < sin (31417 / 60000 :: real)"
  proof -
    have "1 / 2 < (31417 / 60000 :: real) - (31417 / 60000) ^ 3 / 6 +
            (31417 / 60000) ^ 5 / 120 - (31417 / 60000) ^ 7 / 5040"
      by (simp add: power_divide)
    also have "\<dots> \<le> sin (31417 / 60000 :: real)"
      by (rule sin_lower) simp
    finally show ?thesis .
  qed
  ultimately show False by (simp add: sin_30)
qed

lemma sin_interval:
  assumes "0 \<le> lo" "lo \<le> x" "x \<le> hi" "hi \<le> 1"
    and "sl \<le> lo - lo ^ 3 / 6 + lo ^ 5 / 120 - lo ^ 7 / 5040"
    and "hi - hi ^ 3 / 6 + hi ^ 5 / 120 + hi ^ 7 / 5040 \<le> sh"
  shows "sl \<le> sin (x::real) \<and> sin x \<le> sh"
proof -
  have h: "hi \<le> pi / 2" using assms(4) pi_ge_two by linarith
  have "sin lo \<le> sin x" using assms h by (intro sin_monotone_2pi_le) linarith+
  moreover have "sin x \<le> sin hi" using assms h by (intro sin_monotone_2pi_le) linarith+
  moreover have "lo - lo ^ 3 / 6 + lo ^ 5 / 120 - lo ^ 7 / 5040 \<le> sin lo"
    using assms(1) by (rule sin_lower)
  moreover have "sin hi \<le> hi - hi ^ 3 / 6 + hi ^ 5 / 120 + hi ^ 7 / 5040"
    using assms(1-3) by (intro sin_upper) linarith
  ultimately show ?thesis using assms(5,6) by linarith
qed

lemma cos_interval:
  assumes "0 \<le> lo" "lo \<le> x" "x \<le> hi" "hi \<le> 2"
    and "cl \<le> 1 - hi ^ 2 / 2 + hi ^ 4 / 24 - hi ^ 6 / 720 - hi ^ 8 / 40320"
    and "1 - lo ^ 2 / 2 + lo ^ 4 / 24 - lo ^ 6 / 720 + lo ^ 8 / 40320 \<le> ch"
  shows "cl \<le> cos (x::real) \<and> cos x \<le> ch"
proof -
  have h: "hi \<le> pi" using assms(4) pi_ge_two by linarith
  have "cos hi \<le> cos x" using assms h by (intro cos_monotone_0_pi_le) linarith+
  moreover have "cos x \<le> cos lo" using assms h by (intro cos_monotone_0_pi_le) linarith+
  ultimately show ?thesis
    using assms(5,6) cos_lower [of hi] cos_upper [of lo] by linarith
qed

lemma LA_KC_sin_dLat:
  "442370 / 10000000 \<le> sin (5071 / 360000 * pi) \<and> sin (5071 / 360000 * pi) \<le> 442400 / 10000000"
proof (rule sin_interval [where lo = "442515 / 10000000" and hi = "442544 / 10000000"])
  show "442515 / 10000000 \<le> 5071 / 360000 * pi" using pi_lower by simp
  show "5071 / 360000 * pi \<le> 442544 / 10000000" using pi_upper by simp
qed (simp_all add: power_divide)

lemma LA_KC_sin_dLon:
  "2048317 / 10000000 \<le> sin (197 / 3000 * pi) \<and> sin (197 / 3000 * pi) \<le> 2048447 / 10000000"
proof (rule sin_interval [where lo = "2062918 / 10000000" and hi = "2063050 / 10000000"])
  show "2062918 / 10000000 \<le> 197 / 3000 * pi" using pi_lower by simp
  show "197 / 3000 * pi \<le> 2063050 / 10000000" using pi_upper by simp
qed (simp_all add: power_divide)

lemma LA_KC_cos_lat1:
  "8287031 / 10000000 \<le> cos (34033 / 180000 * pi) \<and> cos (34033 / 180000 * pi) \<le> 8287253 / 10000000"
proof (rule cos_interval [where lo = "5939703 / 10000000" and hi = "5940083 / 10000000"])
  show "5939703 / 10000000 \<le> 34033 / 180000 * pi" using pi_lower by simp
  show "34033 / 180000 * pi \<le> 5940083 / 10000000" using pi_upper by simp
qed (simp_all add: power_divide)

lemma LA_KC_cos_lat2:
  "7759853 / 10000000 \<le> cos (39104 / 180000 * pi) \<and> cos (39104 / 180000 * pi) \<le> 7760151 / 10000000"
proof (rule cos_interval [where lo = "6824734 / 10000000" and hi = "6825169 / 10000000"])
  show "6824734 / 10000000 \<le> 39104 / 180000 * pi" using pi_lower by simp
  show "39104 / 180000 * pi \<le> 6825169 / 10000000" using pi_upper by simp
qed (simp_all add: power_divide)

lemma atan2_haversine:
  assumes "0 \<le> a" "a < 1"
  shows "sin (atan2 (sqrt a) (sqrt (1 - a))) = sqrt a"
    and "0 \<le> atan2 (sqrt a) (sqrt (1 - a))"
    and "atan2 (sqrt a) (sqrt (1 - a)) < pi / 2"
proof -
  let ?t = "sqrt a / sqrt (1 - a)"
  have p: "0 < sqrt (1 - a)" using assms by simp
  have at: "atan2 (sqrt a) (sqrt (1 - a)) = arctan ?t"
    using p by (simp add: atan2_def)
  have "1 + ?t\<^sup>2 = 1 / (1 - a)"
    using assms by (simp add: power_divide field_simps)
  then have "sqrt (1 + ?t\<^sup>2) = 1 / sqrt (1 - a)"
    by (simp add: real_sqrt_divide)
  then have "sin (arctan ?t) = ?t / (1 / sqrt (1 - a))"
    by (simp add: sin_arctan)
  also have "\<dots> = sqrt a" using p by simp
  finally show "sin (atan2 (sqrt a) (sqrt (1 - a))) = sqrt a" using at by simp
  have "0 \<le> ?t" using assms by simp
  then show "0 \<le> atan2 (sqrt a) (sqrt (1 - a))" using at by (simp add: zero_le_arctan_iff)
  show "atan2 (sqrt a) (sqrt (1 - a)) < pi / 2" using at arctan_ubound [of ?t] by simp
qed

lemma LA_KC_a:
  defines "a \<equiv> sin (5071 / 360000 * pi) * sin (5071 / 360000 * pi) +
              cos (34033 / 180000 * pi) * cos (39104 / 180000 * pi) *
              sin (197 / 3000 * pi) * sin (197 / 3000 * pi)"
  shows "289372 / 10000000 \<le> a \<and> a \<le> 289427 / 10000000"
proof -
  define s1 where "s1 = sin (5071 / 360000 * pi)"
  define s2 where "s2 = sin (197 / 3000 * pi)"
  define c1 where "c1 = cos (34033 / 180000 * pi)"
  define c2 where "c2 = cos (39104 / 180000 * pi)"
  have s1: "442370 / 10000000 \<le> s1" "s1 \<le> 442400 / 10000000"
    using LA_KC_sin_dLat by (simp_all add: s1_def)
  have s2: "2048317 / 10000000 \<le> s2" "s2 \<le> 2048447 / 10000000"
    using LA_KC_sin_dLon by (simp_all add: s2_def)
  have c1: "8287031 / 10000000 \<le> c1" "c1 \<le> 8287253 / 10000000"
    using LA_KC_cos_lat1 by (simp_all add: c1_def)
  have c2: "7759853 / 10000000 \<le> c2" "c2 \<le> 7760151 / 10000000"
    using LA_KC_cos_lat2 by (simp_all add: c2_def)
  have a: "a = s1 * s1 + c1 * c2 * s2 * s2"
    by (simp add: a_def s1_def s2_def c1_def c2_def)
  have lo1: "(442370 / 10000000) * (442370 / 10000000) \<le> s1 * s1"
    using s1 by (intro mult_mono) simp_all
  have hi1: "s1 * s1 \<le> (442400 / 10000000) * (442400 / 10000000)"
    using s1 by (intro mult_mono) linarith+
  have cc_lo: "(8287031 / 10000000) * (7759853 / 10000000) \<le> c1 * c2"
    using c1 c2 by (intro mult_mono) simp_all
  have cc_hi: "c1 * c2 \<le> (8287253 / 10000000) * (7760151 / 10000000)"
    using c1 c2 by (intro mult_mono) linarith+
  have ss_lo: "(2048317 / 10000000) * (2048317 / 10000000) \<le> s2 * s2"
    using s2 by (intro mult_mono) simp_all
  have ss_hi: "s2 * s2 \<le> (2048447 / 10000000) * (2048447 / 10000000)"
    using s2 by (intro mult_mono) linarith+
  have cc0: "0 \<le> c1 * c2" using cc_lo by linarith
  have lo2: "(8287031 / 10000000) * (7759853 / 10000000) * ((2048317 / 10000000) * (2048317 / 10000000))
               \<le> c1 * c2 * (s2 * s2)"
    by (rule mult_mono [OF cc_lo ss_lo cc0]) simp
  have hi2: "c1 * c2 * (s2 * s2)
               \<le> (8287253 / 10000000) * (7760151 / 10000000) * ((2048447 / 10000000) * (2048447 / 10000000))"
    by (rule mult_mono [OF cc_hi ss_hi]) simp_all
  have "289372 / 10000000 \<le> (442370 / 10000000) * (442370 / 10000000) +
          (8287031 / 10000000) * (7759853 / 10000000) * ((2048317 / 10000000) * (2048317 / 10000000 :: real))"
    by simp
  moreover have "(442400 / 10000000) * (442400 / 10000000) +
          (8287253 / 10000000) * (7760151 / 10000000) * ((2048447 / 10000000) * (2048447 / 10000000 :: real))
          \<le> 289427 / 10000000"
    by simp
  ultimately show ?thesis
    using lo1 hi1 lo2 hi2 unfolding a by (simp only: mult.assoc) linarith
qed

lemma haversine_angle_bounds:
  assumes a: "alo \<le> a" "a \<le> ahi" "0 \<le> alo" "ahi < 1"
    and L: "0 \<le> L" "L \<le> 1" "L - L ^ 3 / 6 + L ^ 5 / 120 + L ^ 7 / 5040 \<le> sL" "sL\<^sup>2 \<le> alo"
    and U: "0 \<le> U" "U \<le> 1" "sU \<le> U - U ^ 3 / 6 + U ^ 5 / 120 - U ^ 7 / 5040" "0 \<le> sU" "ahi \<le> sU\<^sup>2"
  shows "L \<le> atan2 (sqrt a) (sqrt (1 - a)) \<and> atan2 (sqrt a) (sqrt (1 - a)) \<le> U"
proof -
  let ?th = "atan2 (sqrt a) (sqrt (1 - a))"
  have a01: "0 \<le> a" "a < 1" using a by linarith+
  note th = atan2_haversine [OF a01]
  have half: "1 \<le> pi / 2" using pi_ge_two by simp
  have "sin L \<le> sL" using sin_upper [OF L(1)] L(3) by linarith
  moreover have "sL \<le> sqrt a"
    using L(4) a(1) by (intro real_le_rsqrt) linarith
  ultimately have "sin L \<le> sin ?th" using th(1) by linarith
  then have lo: "L \<le> ?th"
    using th(2,3) L(1,2) half by (subst (asm) sin_mono_le_eq) linarith+
  have "sqrt a \<le> sU"
    using U(4,5) a(2) by (intro real_le_lsqrt) linarith+
  moreover have "sU \<le> sin U" using sin_lower [OF U(1)] U(3) by linarith
  ultimately have "sin ?th \<le> sin U" using th(1) by linarith
  then have hi: "?th \<le> U"
    using th(2,3) U(1,2) half by (subst (asm) sin_mono_le_eq) linarith+
  show ?thesis using lo hi by simp
qed

lemma haversineKm_LA_KC:
  "21781 / 10 \<le> haversineKm (lat losAngeles) (lon losAngeles) (lat kansasCity) (lon kansasCity) \<and>
   haversineKm (lat losAngeles) (lon losAngeles) (lat kansasCity) (lon kansasCity) \<le> 21785 / 10"
proof -
  define a where "a = sin (5071 / 360000 * pi) * sin (5071 / 360000 * pi) +
              cos (34033 / 180000 * pi) * cos (39104 / 180000 * pi) *
              sin (197 / 3000 * pi) * sin (197 / 3000 * pi)"
  have ab: "289372 / 10000000 \<le> a" "a \<le> 289427 / 10000000"
    using LA_KC_a by (simp_all add: a_def)
  have th: "947 / 5540 \<le> atan2 (sqrt a) (sqrt (1 - a)) \<and> atan2 (sqrt a) (sqrt (1 - a)) \<le> 4357 / 25484"
    by (rule haversine_angle_bounds [OF ab, where sL = "1701074 / 10000000" and sU = "1701383 / 10000000"])
       (simp_all add: power_divide)
  have h: "haversineKm (lat losAngeles) (lon losAngeles) (lat kansasCity) (lon kansasCity) =
           (if a < 0 \<or> 1 - a < 0 then 1
            else if 6371 * (2 * atan2 (sqrt a) (sqrt (1 - a))) = 0 then 1
                 else 6371 * (2 * atan2 (sqrt a) (sqrt (1 - a))))"
    by (simp add: haversineKm_def losAngeles_def kansasCity_def toRad_def a_def Let_def)
  show ?thesis
    unfolding h using ab th by auto
qed

section \<open>The scenario of the leg from LA to KC\<close>

lemma dtHours_hour: "dtHours hourConfig = 1"
  by (simp add: dtHours_def hourConfig_def defaultConfig_def)

lemma stations_LA_KC:
  "stationByCode (Some ''LA'') = Some losAngeles" "stationByCode (Some ''KC'') = Some kansasCity"
  by (simp_all add: stationByCode_def STATIONS_def losAngeles_def kansasCity_def)

lemma distLAKC_bounds: "21781 / 10 \<le> distLAKC" "distLAKC \<le> 21785 / 10"
  using haversineKm_LA_KC by (simp_all add: distLAKC_def)

lemma enRoute_update:
  assumes "enRoute p t" "p < 1"
  shows "updateTrain hourConfig nowIso rnd k t =
         moveTrain hourConfig nowIso rnd k t losAngeles kansasCity ''KC''"
proof -
  have f: "route t = [''LA'', ''KC'', ''CHI'', ''NYC'']" "currentLegIndex t = 0"
    "dwellRemainingHours t = 0" "legProgress t = p"
    using assms(1) by (simp_all add: enRoute_def)
  have el: "elemAt [''LA'', ''KC'', ''CHI'', ''NYC''] 0 = Some ''LA''"
    "elemAt [''LA'', ''KC'', ''CHI'', ''NYC''] 1 = Some ''KC''"
    by (simp_all add: elemAt_def)
  show ?thesis
    using assms(2) by (simp add: updateTrain_def Let_def f el stations_LA_KC)
qed

lemma enRoute_transit:
  assumes "enRoute p t" "0 \<le> p" "p + 60 / distLAKC < 1" "noSpeedChange rnd"
  shows "enRoute (p + 60 / distLAKC) (fst (updateTrain hourConfig nowIso rnd 0 t))"
proof -
  have d: "0 < distLAKC" using distLAKC_bounds by linarith
  then have "0 \<le> 60 / distLAKC" by simp
  then have p1: "p < 1" using assms(3) by linarith
  have f: "route t = [''LA'', ''KC'', ''CHI'', ''NYC'']" "currentLegIndex t = 0"
    "dwellRemainingHours t = 0" "legProgress t = p" "speedKmh t = 60"
    using assms(1) by (simp_all add: enRoute_def)
  have r: "\<not> rnd 0 < 5 / 100" using assms(4) by (simp add: noSpeedChange_def)
  have r': "\<not> rnd 0 * 20 < 1" using r by simp
  have "enRoute (p + 60 / distLAKC)
          (fst (moveTrain hourConfig nowIso rnd 0 t losAngeles kansasCity ''KC''))"
    using assms(3) r r'
    by (simp add: moveTrain_def Let_def dtHours_hour f distLAKC_def [symmetric] inTransit_def
          enRoute_def)
  then show ?thesis
    by (simp add: enRoute_update [OF assms(1) p1])
qed

lemma enRoute_arrive:
  assumes "enRoute p t" "p < 1" "1 \<le> p + 60 / distLAKC" "unitDraws rnd"
  shows "legProgress (fst (updateTrain hourConfig nowIso rnd 0 t)) = 1 \<and>
         real_of_int (MIN_DWELL_MINUTES hourConfig) / 60
           \<le> dwellRemainingHours (fst (updateTrain hourConfig nowIso rnd 0 t)) \<and>
         dwellRemainingHours (fst (updateTrain hourConfig nowIso rnd 0 t))
           \<le> real_of_int (MAX_DWELL_MINUTES hourConfig) / 60"
proof -
  have f: "legProgress t = p" "speedKmh t = 60"
    using assms(1) by (simp_all add: enRoute_def)
  have mm: "MIN_DWELL_MINUTES hourConfig = 5" "MAX_DWELL_MINUTES hourConfig = 20"
    by (simp_all add: hourConfig_def defaultConfig_def)
  have arr: "1 \<le> legProgress t + real_of_int (speedKmh t) * dtHours hourConfig /
               haversineKm (lat losAngeles) (lon losAngeles) (lat kansasCity) (lon kansasCity)"
    using assms(3) by (simp add: f dtHours_hour distLAKC_def)
  have b: "5 \<le> randInt (rnd j) 5 20 \<and> randInt (rnd j) 5 20 \<le> 20" for j
    using assms(4) by (intro randInt_bounds) (simp_all add: unitDraws_def)
  have "real_of_int 5 / 60 \<le> real_of_int (randInt (rnd j) 5 20) / 60 \<and>
        real_of_int (randInt (rnd j) 5 20) / 60 \<le> real_of_int 20 / 60" for j
    using b [of j] by (simp add: divide_right_mono)
  then show ?thesis
    unfolding enRoute_update [OF assms(1,2)] moveTrain_arrival [OF arr]
    by (simp add: arrive_def Let_def case_prod_unfold mm)
qed

lemma updateTrains_single:
  "updateTrains cfg nowIso rnd [t] = [fst (updateTrain cfg nowIso rnd 0 t)]"
  by (simp add: updateTrains_def case_prod_unfold)

lemma enRoute_run:
  assumes "\<forall>tk \<in> set ticks. noSpeedChange (snd tk)"
    and "enRoute p t" "0 \<le> p" "p + real (length ticks) * (60 / distLAKC) < 1"
  shows "\<exists>t'. runTicks hourConfig ticks [t] = [t'] \<and>
              enRoute (p + real (length ticks) * (60 / distLAKC)) t'"
  using assms
proof (induction ticks arbitrary: p t)
  case Nil
  then show ?case by simp
next
  case (Cons tk ticks)
  obtain nowIso rnd where tk: "tk = (nowIso, rnd)" by (cases tk)
  have d: "0 \<le> 60 / distLAKC" using distLAKC_bounds by simp
  have n: "0 \<le> real (length ticks) * (60 / distLAKC)" using d by simp
  have split: "real (length (tk # ticks)) * (60 / distLAKC) =
               60 / distLAKC + real (length ticks) * (60 / distLAKC)"
    by (simp add: distrib_right add_divide_distrib)
  have lt: "p + 60 / distLAKC < 1"
    using Cons.prems(4) n unfolding split by linarith
  have st: "noSpeedChange rnd" using Cons.prems(1) tk by simp
  let ?t1 = "fst (updateTrain hourConfig nowIso rnd 0 t)"
  have e1: "enRoute (p + 60 / distLAKC) ?t1"
    by (rule enRoute_transit [OF Cons.prems(2,3) lt st])
  have "\<exists>t'. runTicks hourConfig ticks [?t1] = [t'] \<and>
              enRoute (p + 60 / distLAKC + real (length ticks) * (60 / distLAKC)) t'"
  proof (rule Cons.IH [OF _ e1])
    show "\<forall>tk \<in> set ticks. noSpeedChange (snd tk)" using Cons.prems(1) by simp
    show "0 \<le> p + 60 / distLAKC" using Cons.prems(3) d by linarith
    show "p + 60 / distLAKC + real (length ticks) * (60 / distLAKC) < 1"
      using Cons.prems(4) unfolding split by linarith
  qed
  then show ?case
    unfolding split by (simp add: tk updateTrains_single add.assoc)
qed

lemma scenarioTrain_enRoute: "enRoute 0 (scenarioTrain cs)"
  by (simp add: enRoute_def scenarioTrain_def)

lemma increment_bounds: "275 / 10000 < 60 / distLAKC" "60 / distLAKC < 276 / 10000"
proof -
  have d: "0 < distLAKC" using distLAKC_bounds by linarith
  show "275 / 10000 < 60 / distLAKC"
    using distLAKC_bounds d by (simp add: field_simps)
  show "60 / distLAKC < 276 / 10000"
    using distLAKC_bounds d by (simp add: field_simps)
qed

lemma runTicks_append:
  "runTicks cfg (xs @ ys) trains = runTicks cfg ys (runTicks cfg xs trains)"
  by (induction xs arbitrary: trains) auto

lemma scenario_transit:
  assumes "\<forall>tk \<in> set ticks. noSpeedChange (snd tk)" "length ticks \<le> 36"
  shows "\<exists>t. runTicks hourConfig ticks [scenarioTrain cs] = [t] \<and>
             enRoute (real (length ticks) * (60 / distLAKC)) t \<and>
             real (length ticks) * (60 / distLAKC) < 1"
proof -
  have "0 \<le> 60 / distLAKC" using increment_bounds(1) by linarith
  then have "real (length ticks) * (60 / distLAKC) \<le> 36 * (60 / distLAKC)"
    using assms(2) by (intro mult_right_mono) simp_all
  then have lt: "real (length ticks) * (60 / distLAKC) < 1"
    using increment_bounds(2) by linarith
  then show ?thesis
    using enRoute_run [OF assms(1) scenarioTrain_enRoute, of cs] by simp
qed

lemma scenario_arrival:
  assumes "\<forall>tk \<in> set ticks. noSpeedChange (snd tk)" "length ticks = 36" "unitDraws rnd"
  shows "\<exists>t. runTicks hourConfig (ticks @ [(nowIso, rnd)]) [scenarioTrain cs] = [t] \<and>
             legProgress t = 1 \<and>
             real_of_int (MIN_DWELL_MINUTES hourConfig) / 60 \<le> dwellRemainingHours t \<and>
             dwellRemainingHours t \<le> real_of_int (MAX_DWELL_MINUTES hourConfig) / 60"
proof -
  obtain t where t: "runTicks hourConfig ticks [scenarioTrain cs] = [t]"
    "enRoute (36 * (60 / distLAKC)) t" "36 * (60 / distLAKC) < 1"
    using scenario_transit [OF assms(1), of cs] assms(2) by auto
  have "1 \<le> 36 * (60 / distLAKC) + 60 / distLAKC"
    using increment_bounds(1) by linarith
  then show ?thesis
    using enRoute_arrive [OF t(2,3) _ assms(3), of nowIso]
    by (simp add: runTicks_append t(1) updateTrains_single)
qed

text \<open>
  Claim C8, as amended.  For a train on route LA, KC, CHI, NYC at 60 km/h starting at
  \<open>currentLegIndex = 0\<close>, \<open>legProgress = 0\<close>, with ticks of one simulated hour and no
  speed perturbation: the leg distance computed by \<open>haversineKm\<close> lies between 2178 and
  2179 km, each tick adds a progress between 0.0275 and 0.0276, after \<open>n \<le> 36\<close> ticks the
  progress is \<open>n\<close> increments and below 1, and the 37th tick brings the train to KC with
  \<open>legProgress = 1\<close> and a dwell time within the configured minutes.
\<close>

theorem scenario_LA_KC:
  assumes "\<forall>tk \<in> set ticks. noSpeedChange (snd tk)" "length ticks = 36" "unitDraws rnd"
  shows "2178 < distLAKC \<and> distLAKC < 2179 \<and>
         275 / 10000 < 60 * dtHours hourConfig / distLAKC \<and>
         60 * dtHours hourConfig / distLAKC < 276 / 10000 \<and>
         (\<forall>n \<le> 36. \<exists>t. runTicks hourConfig (take n ticks) [scenarioTrain cs] = [t] \<and>
              legProgress t = real n * (60 * dtHours hourConfig / distLAKC) \<and>
              legProgress t < 1 \<and> dwellRemainingHours t = 0) \<and>
         (\<exists>t. runTicks hourConfig (ticks @ [(nowIso, rnd)]) [scenarioTrain cs] = [t] \<and>
              legProgress t = 1 \<and>
              real_of_int (MIN_DWELL_MINUTES hourConfig) / 60 \<le> dwellRemainingHours t \<and>
              dwellRemainingHours t \<le> real_of_int (MAX_DWELL_MINUTES hourConfig) / 60)"
proof (intro conjI allI impI)
  show "2178 < distLAKC" "distLAKC < 2179"
    using distLAKC_bounds by linarith+
  show "275 / 10000 < 60 * dtHours hourConfig / distLAKC"
    "60 * dtHours hourConfig / distLAKC < 276 / 10000"
    using increment_bounds by (simp_all add: dtHours_hour)
next
  fix n :: nat
  assume n: "n \<le> 36"
  have "\<forall>tk \<in> set (take n ticks). noSpeedChange (snd tk)"
    using assms(1) by (meson in_set_takeD)
  moreover have "length (take n ticks) = n" using assms(2) n by simp
  ultimately show "\<exists>t. runTicks hourConfig (take n ticks) [scenarioTrain cs] = [t] \<and>
              legProgress t = real n * (60 * dtHours hourConfig / distLAKC) \<and>
              legProgress t < 1 \<and> dwellRemainingHours t = 0"
    using scenario_transit [of "take n ticks" cs] n
    by (auto simp: enRoute_def dtHours_hour)
next
  show "\<exists>t. runTicks hourConfig (ticks @ [(nowIso, rnd)]) [scenarioTrain cs] = [t] \<and>
              legProgress t = 1 \<and>
              real_of_int (MIN_DWELL_MINUTES hourConfig) / 60 \<le> dwellRemainingHours t \<and>
              dwellRemainingHours t \<le> real_of_int (MAX_DWELL_MINUTES hourConfig) / 60"
    by (rule scenario_arrival [OF assms])
qed

text \<open>Thirty-seven ticks in which every draw is 1/2.\<close>

theorem scenario_LA_KC_witness:
  "2178 < distLAKC \<and> distLAKC < 2179 \<and>
   (\<exists>t. runTicks hourConfig (replicate 36 (''t'', drawHalf)) [scenarioTrain []] = [t] \<and>
        legProgress t = 36 * (60 * dtHours hourConfig / distLAKC) \<and>
        legProgress t < 1 \<and> dwellRemainingHours t = 0) \<and>
   (\<exists>t. runTicks hourConfig (replicate 36 (''t'', drawHalf) @ [(''t37'', drawHalf)])
            [scenarioTrain []] = [t] \<and>
        legProgress t = 1 \<and>
        real_of_int (MIN_DWELL_MINUTES hourConfig) / 60 \<le> dwellRemainingHours t \<and>
        dwellRemainingHours t \<le> real_of_int (MAX_DWELL_MINUTES hourConfig) / 60)"
proof -
  have a: "\<forall>tk \<in> set (replicate 36 (''t'', drawHalf)). noSpeedChange (snd tk)"
    by (simp add: noSpeedChange_def drawHalf_def)
  have b: "length (replicate 36 (''t'', drawHalf)) = 36" by simp
  have c: "unitDraws drawHalf" by (simp add: unitDraws_def drawHalf_def)
  note inst = scenario_LA_KC [OF a b c, of "[]" "''t37''"]
  from inst have "\<forall>n \<le> 36. \<exists>t. runTicks hourConfig (take n (replicate 36 (''t'', drawHalf)))
              [scenarioTrain []] = [t] \<and>
              legProgress t = real n * (60 * dtHours hourConfig / distLAKC) \<and>
              legProgress t < 1 \<and> dwellRemainingHours t = 0"
    by blast
  then have "\<exists>t. runTicks hourConfig (take 36 (replicate 36 (''t'', drawHalf)))
              [scenarioTrain []] = [t] \<and>
              legProgress t = real 36 * (60 * dtHours hourConfig / distLAKC) \<and>
              legProgress t < 1 \<and> dwellRemainingHours t = 0"
    by blast
  then show ?thesis using inst by simp
qed

text \<open>
  Claim C8 as stated fails: the distance is more than three times 690 km, the increment
  less than a third of 0.087, and after 12 simulated hours the train has covered less
  than half of the leg and is not dwelling.
\<close>

theorem scenario_LA_KC_counterexample:
  "3 * 690 < distLAKC \<and>
   60 * dtHours hourConfig / distLAKC < (87 / 1000) / 3 \<and>
   legProgress (hd (runTicks hourConfig (replicate 12 (''t'', drawHalf)) [scenarioTrain []])) < 1 / 2 \<and>
   dwellRemainingHours (hd (runTicks hourConfig (replicate 12 (''t'', drawHalf)) [scenarioTrain []])) = 0"
proof -
  have a: "\<forall>tk \<in> set (replicate 12 (''t'', drawHalf)). noSpeedChange (snd tk)"
    by (simp add: noSpeedChange_def drawHalf_def)
  obtain t where t: "runTicks hourConfig (replicate 12 (''t'', drawHalf)) [scenarioTrain []] = [t]"
    "enRoute (12 * (60 / distLAKC)) t"
    using scenario_transit [OF a, of "[]"] by auto
  have "12 * (60 / distLAKC) < 1 / 2" using increment_bounds(2) by linarith
  then have "legProgress t < 1 / 2" "dwellRemainingHours t = 0"
    using t(2) by (simp_all add: enRoute_def)
  moreover have "3 * 690 < distLAKC" using distLAKC_bounds by linarith
  moreover have "60 * dtHours hourConfig / distLAKC < (87 / 1000) / 3"
    using increment_bounds(2) by (simp add: dtHours_hour)
  ultimately show ?thesis by (simp add: t(1))
qed

section \<open>The clock and the subscribers\<close>

lemma tickInterval_fleet:
  "fst (tickInterval cfg evs ts) = runTicks cfg (map ev_tick evs) ts"
proof (induction evs arbitrary: ts)
  case Nil
  show ?case by simp
next
  case (Cons ev evs)
  obtain nowIso rnd where tk: "ev_tick ev = (nowIso, rnd)" by (cases "ev_tick ev")
  show ?case
    using Cons [of "updateTrains cfg nowIso rnd ts"]
    by (simp add: case_prod_unfold sendUpdate_def Let_def tk)
qed

text \<open>
  Claim C5 fails on the code.  The fleet after the timer firings of one tick interval is
  the fleet after as many clock steps as there were firings: with one subscriber the
  dwelling train loses 5 simulated minutes of dwell time in the interval, with two
  subscribers it loses 10.
\<close>

theorem clock_runs_once_per_subscriber:
  "fst (tickInterval cfg evs ts) = runTicks cfg (map ev_tick evs) ts \<and>
   fst (tickInterval defaultConfig [subscriber ''t3''] [dwellingTrain]) =
     [dwellingTrain\<lparr>dwellRemainingHours := 1 / 4, trainLastUpdated := Some ''t3''\<rparr>] \<and>
   fst (tickInterval defaultConfig [subscriber ''t3'', subscriber ''t3''] [dwellingTrain]) =
     [dwellingTrain\<lparr>dwellRemainingHours := 1 / 6, trainLastUpdated := Some ''t3''\<rparr>]"
proof -
  have one: "updateTrains defaultConfig ''t3'' drawZero [dwellingTrain] =
        [dwellingTrain\<lparr>dwellRemainingHours := 1 / 4, trainLastUpdated := Some ''t3''\<rparr>]"
    by (simp add: updateTrains_def updateTrain_def dwellingTrain_def arrivingTrain_def dtHours_default)
  have two: "updateTrains defaultConfig ''t3'' drawZero
        [dwellingTrain\<lparr>dwellRemainingHours := 1 / 4, trainLastUpdated := Some ''t3''\<rparr>] =
        [dwellingTrain\<lparr>dwellRemainingHours := 1 / 6, trainLastUpdated := Some ''t3''\<rparr>]"
    by (simp add: updateTrains_def updateTrain_def dwellingTrain_def arrivingTrain_def dtHours_default)
  have tk: "ev_tick (subscriber ''t3'') = (''t3'', drawZero)"
    by (simp add: subscriber_def)
  show ?thesis
    unfolding tickInterval_fleet by (simp add: tk one two)
qed

end
